theory Spec2Isabelle
  imports Main "HOL-Library.Word" "HOL-Library.Monad_Syntax"
begin

unbundle bit_operations_syntax

section \<open>Machine model\<close>

text \<open>
  The allocator is C code over \<open>size_t\<close> and raw pointers.  Both are modelled as 64-bit
  words, so every addition, subtraction and comparison below is the unsigned, wrapping
  one of the source.  \<open>NULL\<close> is the address 0.
\<close>

type_synonym size_t = "64 word"
type_synonym addr = "64 word"

definition NULL :: addr where
  "NULL = 0"

definition SIZE_MAX :: size_t where
  "SIZE_MAX = 18446744073709551615"

text \<open>
  The headers \<open>config.h\<close>, \<open>allocator_impl.h\<close> and \<open>tree.h\<close> are not part of the
  sources at hand; the compile-time constants they define are parameters of the model.
\<close>

record config =
  ALIGN :: size_t
  ALLOCATOR_PAGE_SIZE :: size_t
  ALLOCATOR_ARENA_PAGES :: size_t
  sizeof_tree_node :: size_t

text \<open>
  Modelled from the spec: the macro \<open>ROUND_BYTES\<close> of the missing \<open>allocator_impl.h\<close>,
  \<open>ROUND_BYTES(x) = (x + ALIGN - 1) & ~(ALIGN - 1)\<close>.
\<close>

definition ROUND_BYTES :: "config \<Rightarrow> size_t \<Rightarrow> size_t" where
  "ROUND_BYTES cfg x = (x + ALIGN cfg - 1) AND NOT (ALIGN cfg - 1)"

subsection \<open>block.h\<close>

definition BLOCK_OCCUPIED :: size_t where
  "BLOCK_OCCUPIED = 1"

definition BLOCK_LAST :: size_t where
  "BLOCK_LAST = 2"

record Block =
  size_curr :: size_t
  size_prev :: size_t
  offset :: size_t

text \<open>Three \<open>size_t\<close> fields of eight bytes each.\<close>

definition sizeof_Block :: size_t where
  "sizeof_Block = 24"

definition BLOCK_STRUCT_SIZE :: "config \<Rightarrow> size_t" where
  "BLOCK_STRUCT_SIZE cfg = ROUND_BYTES cfg sizeof_Block"

definition BLOCK_SIZE_MIN :: "config \<Rightarrow> size_t" where
  "BLOCK_SIZE_MIN cfg = ROUND_BYTES cfg (sizeof_tree_node cfg)"

text \<open>
  Block headers live in a store from addresses to header records.  The store is total:
  memory that was never written holds some header value, as raw memory does.
\<close>

type_synonym heap = "addr \<Rightarrow> Block"

definition block_to_payload :: "config \<Rightarrow> addr \<Rightarrow> addr" where
  "block_to_payload cfg block = block + BLOCK_STRUCT_SIZE cfg"

definition payload_to_block :: "config \<Rightarrow> addr \<Rightarrow> addr" where
  "payload_to_block cfg ptr = ptr - BLOCK_STRUCT_SIZE cfg"

definition block_to_node :: "config \<Rightarrow> addr \<Rightarrow> addr" where
  "block_to_node cfg block = block_to_payload cfg block"

definition node_to_block :: "config \<Rightarrow> addr \<Rightarrow> addr" where
  "node_to_block cfg node = payload_to_block cfg node"

definition block_set_size_curr :: "heap \<Rightarrow> addr \<Rightarrow> size_t \<Rightarrow> heap" where
  "block_set_size_curr h block sz =
     (let flags = size_curr (h block) AND (BLOCK_OCCUPIED OR BLOCK_LAST)
      in h(block := (h block)\<lparr>size_curr := sz OR flags\<rparr>))"

definition block_get_size_curr :: "heap \<Rightarrow> addr \<Rightarrow> size_t" where
  "block_get_size_curr h block = size_curr (h block) AND NOT (BLOCK_OCCUPIED OR BLOCK_LAST)"

definition block_set_size_prev :: "heap \<Rightarrow> addr \<Rightarrow> size_t \<Rightarrow> heap" where
  "block_set_size_prev h block sz = h(block := (h block)\<lparr>size_prev := sz\<rparr>)"

definition block_get_size_prev :: "heap \<Rightarrow> addr \<Rightarrow> size_t" where
  "block_get_size_prev h block = size_prev (h block)"

definition block_set_flag_busy :: "heap \<Rightarrow> addr \<Rightarrow> heap" where
  "block_set_flag_busy h block =
     h(block := (h block)\<lparr>size_curr := size_curr (h block) OR BLOCK_OCCUPIED\<rparr>)"

definition block_get_flag_busy :: "heap \<Rightarrow> addr \<Rightarrow> bool" where
  "block_get_flag_busy h block = (size_curr (h block) AND BLOCK_OCCUPIED \<noteq> 0)"

definition block_clr_flag_busy :: "heap \<Rightarrow> addr \<Rightarrow> heap" where
  "block_clr_flag_busy h block =
     h(block := (h block)\<lparr>size_curr := size_curr (h block) AND NOT BLOCK_OCCUPIED\<rparr>)"

definition block_get_flag_first :: "heap \<Rightarrow> addr \<Rightarrow> bool" where
  "block_get_flag_first h block = (if size_prev (h block) = 0 then True else False)"

definition block_set_flag_last :: "heap \<Rightarrow> addr \<Rightarrow> heap" where
  "block_set_flag_last h block =
     h(block := (h block)\<lparr>size_curr := size_curr (h block) OR BLOCK_LAST\<rparr>)"

definition block_get_flag_last :: "heap \<Rightarrow> addr \<Rightarrow> bool" where
  "block_get_flag_last h block = (size_curr (h block) AND BLOCK_LAST \<noteq> 0)"

definition block_clr_flag_last :: "heap \<Rightarrow> addr \<Rightarrow> heap" where
  "block_clr_flag_last h block =
     h(block := (h block)\<lparr>size_curr := size_curr (h block) AND NOT BLOCK_LAST\<rparr>)"

definition block_set_offset :: "heap \<Rightarrow> addr \<Rightarrow> size_t \<Rightarrow> heap" where
  "block_set_offset h block off = h(block := (h block)\<lparr>offset := off\<rparr>)"

definition block_get_offset :: "heap \<Rightarrow> addr \<Rightarrow> size_t" where
  "block_get_offset h block = offset (h block)"

definition block_next :: "config \<Rightarrow> heap \<Rightarrow> addr \<Rightarrow> addr" where
  "block_next cfg h block = block + BLOCK_STRUCT_SIZE cfg + block_get_size_curr h block"

definition block_prev :: "config \<Rightarrow> heap \<Rightarrow> addr \<Rightarrow> addr" where
  "block_prev cfg h block = block - BLOCK_STRUCT_SIZE cfg - block_get_size_prev h block"

definition arena_init :: "heap \<Rightarrow> addr \<Rightarrow> size_t \<Rightarrow> heap" where
  "arena_init h block sz =
     block_set_flag_last (h(block := \<lparr>size_curr = sz, size_prev = 0, offset = 0\<rparr>)) block"

definition block_init :: "heap \<Rightarrow> addr \<Rightarrow> heap" where
  "block_init h block = block_clr_flag_last (block_clr_flag_busy h block) block"

subsection \<open>kernel.c: the page provider\<close>

text \<open>
  What the operating system answers is not decided by the program, so it is an input:
  \<open>mmap_result\<close> is the outcome of \<open>mmap\<close> for a given length (a mapping, \<open>ENOMEM\<close>, or
  another error), \<open>munmap_ok\<close> and \<open>madvise_ok\<close> say whether the two other calls
  succeed.  The state records the live mappings and the sequence of calls made.
\<close>

datatype mmap_res = Mapped addr | Enomem | Mmap_error

record kernel =
  mmap_result :: "size_t \<Rightarrow> mmap_res"
  munmap_ok :: "addr \<Rightarrow> size_t \<Rightarrow> bool"
  madvise_ok :: "addr \<Rightarrow> size_t \<Rightarrow> bool"

datatype kcall =
  K_alloc size_t addr
  | K_free addr size_t
  | K_reset addr size_t

record state =
  heap :: heap
  bytes :: "addr \<Rightarrow> 8 word"
  blocks_tree :: "(addr \<times> size_t) list"
  mappings :: "(addr \<times> size_t) list"
  ktrace :: "kcall list"

text \<open>
  A result \<open>None\<close> stands for the process being terminated: by \<open>exit(EXIT_FAILURE)\<close> in
  one of the \<open>failed_kernel_*\<close> functions, or by a failed \<open>assert\<close>.
\<close>

definition kernel_alloc :: "kernel \<Rightarrow> state \<Rightarrow> size_t \<Rightarrow> (addr \<times> state) option" where
  "kernel_alloc k st sz =
     (case mmap_result k sz of
        Mapped ptr \<Rightarrow>
          Some (ptr, st\<lparr>mappings := (ptr, sz) # mappings st,
                         ktrace := ktrace st @ [K_alloc sz ptr]\<rparr>)
      | Enomem \<Rightarrow> Some (NULL, st\<lparr>ktrace := ktrace st @ [K_alloc sz NULL]\<rparr>)
      | Mmap_error \<Rightarrow> None)"

definition kernel_free :: "kernel \<Rightarrow> state \<Rightarrow> addr \<Rightarrow> size_t \<Rightarrow> state option" where
  "kernel_free k st ptr sz =
     (if munmap_ok k ptr sz
      then Some (st\<lparr>mappings := removeAll (ptr, sz) (mappings st),
                     ktrace := ktrace st @ [K_free ptr sz]\<rparr>)
      else None)"

definition memset :: "(addr \<Rightarrow> 8 word) \<Rightarrow> addr \<Rightarrow> 8 word \<Rightarrow> size_t \<Rightarrow> (addr \<Rightarrow> 8 word)" where
  "memset bs ptr c n = (\<lambda>a. if a - ptr < n then c else bs a)"

definition memcpy :: "(addr \<Rightarrow> 8 word) \<Rightarrow> addr \<Rightarrow> addr \<Rightarrow> size_t \<Rightarrow> (addr \<Rightarrow> 8 word)" where
  "memcpy bs dst src n = (\<lambda>a. if a - dst < n then bs (src + (a - dst)) else bs a)"

definition kernel_reset :: "kernel \<Rightarrow> state \<Rightarrow> addr \<Rightarrow> size_t \<Rightarrow> state option" where
  "kernel_reset k st ptr sz =
     (let st1 = st\<lparr>bytes := memset (bytes st) ptr 0x7e sz\<rparr>
      in if madvise_ok k ptr sz
         then Some (st1\<lparr>ktrace := ktrace st1 @ [K_reset ptr sz]\<rparr>)
         else None)"

subsection \<open>block.c\<close>

definition block_split :: "config \<Rightarrow> heap \<Rightarrow> addr \<Rightarrow> size_t \<Rightarrow> addr \<times> heap" where
  "block_split cfg h block sz =
     (let h1 = block_set_flag_busy h block;
          size_rest = block_get_size_curr h1 block - sz
      in if size_rest \<ge> BLOCK_STRUCT_SIZE cfg + BLOCK_SIZE_MIN cfg then
           let size_rest' = size_rest - BLOCK_STRUCT_SIZE cfg;
               h2 = block_set_size_curr h1 block sz;
               block_r = block_next cfg h2 block;
               h3 = block_init h2 block_r;
               h4 = block_set_size_curr h3 block_r size_rest';
               h5 = block_set_size_prev h4 block_r sz;
               h6 = block_set_offset h5 block_r
                      (block_get_offset h5 block + sz + BLOCK_STRUCT_SIZE cfg);
               h7 = (if block_get_flag_last h6 block
                     then block_set_flag_last (block_clr_flag_last h6 block) block_r
                     else block_set_size_prev h6 (block_next cfg h6 block_r) size_rest')
           in (block_r, h7)
         else (NULL, h1))"

definition block_merge :: "config \<Rightarrow> heap \<Rightarrow> addr \<Rightarrow> addr \<Rightarrow> heap option" where
  "block_merge cfg h block block_r =
     (if block_get_flag_busy h block_r then None
      else if block_next cfg h block \<noteq> block_r then None
      else
        let sz = block_get_size_curr h block + block_get_size_curr h block_r
                     + BLOCK_STRUCT_SIZE cfg;
            h1 = block_set_size_curr h block sz
        in if block_get_flag_last h1 block_r
           then Some (block_set_flag_last h1 block)
           else Some (block_set_size_prev h1 (block_next cfg h1 block_r) sz))"

text \<open>The two page-aligned offsets that \<open>block_dontneed\<close> computes.\<close>

definition dontneed_offset1 :: "config \<Rightarrow> size_t \<Rightarrow> size_t" where
  "dontneed_offset1 cfg off =
     (off + BLOCK_STRUCT_SIZE cfg + sizeof_tree_node cfg + ALLOCATOR_PAGE_SIZE cfg - 1)
       AND NOT (ALLOCATOR_PAGE_SIZE cfg - 1)"

definition dontneed_offset2 :: "config \<Rightarrow> size_t \<Rightarrow> size_t \<Rightarrow> size_t" where
  "dontneed_offset2 cfg off sz =
     (off + sz + BLOCK_STRUCT_SIZE cfg) AND NOT (ALLOCATOR_PAGE_SIZE cfg - 1)"

definition block_dontneed :: "config \<Rightarrow> kernel \<Rightarrow> state \<Rightarrow> addr \<Rightarrow> state option" where
  "block_dontneed cfg k st block =
     (let sz = block_get_size_curr (heap st) block
      in if sz - sizeof_tree_node cfg < ALLOCATOR_PAGE_SIZE cfg then Some st
         else
           let off = block_get_offset (heap st) block;
               offset1 = dontneed_offset1 cfg off;
               offset2 = dontneed_offset2 cfg off sz
           in if offset1 = offset2 then Some st
              else if (offset2 - offset1) AND (ALLOCATOR_PAGE_SIZE cfg - 1) \<noteq> 0 then None
              else kernel_reset k st (block + (offset1 - off)) (offset2 - offset1))"

subsection \<open>The size index\<close>

text \<open>
  Modelled from the spec: the search tree of the missing \<open>tree.h\<close> and \<open>avl/\<close>, an
  ordered multiset of nodes keyed by a size.  It is kept as the list of its (node, key)
  pairs; \<open>tree_find_best\<close> returns a node whose key is the least one that is at least
  the request, or \<open>NULL\<close> when there is none.
\<close>

definition TREE_INITIALIZER :: "(addr \<times> size_t) list" where
  "TREE_INITIALIZER = []"

definition tree_add :: "(addr \<times> size_t) list \<Rightarrow> addr \<Rightarrow> size_t \<Rightarrow> (addr \<times> size_t) list" where
  "tree_add t node key = (node, key) # t"

definition tree_remove :: "(addr \<times> size_t) list \<Rightarrow> addr \<Rightarrow> (addr \<times> size_t) list" where
  "tree_remove t node = filter (\<lambda>e. fst e \<noteq> node) t"

fun tree_find_best :: "(addr \<times> size_t) list \<Rightarrow> size_t \<Rightarrow> addr" where
  "tree_find_best [] sz = NULL"
| "tree_find_best ((node, key) # t) sz =
     (if key < sz then tree_find_best t sz
      else if \<exists>e \<in> set t. sz \<le> snd e \<and> snd e < key then tree_find_best t sz
      else node)"

subsection \<open>allocator.c\<close>

definition ARENA_SIZE :: "config \<Rightarrow> size_t" where
  "ARENA_SIZE cfg = ALLOCATOR_ARENA_PAGES cfg * ALLOCATOR_PAGE_SIZE cfg"

definition BLOCK_SIZE_MAX :: "config \<Rightarrow> size_t" where
  "BLOCK_SIZE_MAX cfg = ARENA_SIZE cfg - BLOCK_STRUCT_SIZE cfg"

definition initial_state :: state where
  "initial_state =
     \<lparr>heap = (\<lambda>_. \<lparr>size_curr = 0, size_prev = 0, offset = 0\<rparr>),
      bytes = (\<lambda>_. 0),
      blocks_tree = TREE_INITIALIZER,
      mappings = [],
      ktrace = []\<rparr>"

definition arena_alloc :: "config \<Rightarrow> kernel \<Rightarrow> state \<Rightarrow> size_t \<Rightarrow> (addr \<times> state) option" where
  "arena_alloc cfg k st sz =
     (if sz > BLOCK_SIZE_MAX cfg then
        do {
          (block, st1) \<leftarrow> kernel_alloc k st sz;
          Some (block,
                if block \<noteq> NULL
                then st1\<lparr>heap := arena_init (heap st1) block (sz - BLOCK_STRUCT_SIZE cfg)\<rparr>
                else st1)
        }
      else
        do {
          (block, st1) \<leftarrow> kernel_alloc k st (ARENA_SIZE cfg);
          Some (block,
                if block \<noteq> NULL
                then st1\<lparr>heap := arena_init (heap st1) block
                                   (ARENA_SIZE cfg - BLOCK_STRUCT_SIZE cfg)\<rparr>
                else st1)
        })"

definition tree_add_block :: "config \<Rightarrow> state \<Rightarrow> addr \<Rightarrow> state option" where
  "tree_add_block cfg st block =
     (if block_get_flag_busy (heap st) block then None
      else Some (st\<lparr>blocks_tree := tree_add (blocks_tree st) (block_to_node cfg block)
                                      (block_get_size_curr (heap st) block)\<rparr>))"

definition tree_remove_block :: "config \<Rightarrow> state \<Rightarrow> addr \<Rightarrow> state option" where
  "tree_remove_block cfg st block =
     (if block_get_flag_busy (heap st) block then None
      else Some (st\<lparr>blocks_tree := tree_remove (blocks_tree st) (block_to_node cfg block)\<rparr>))"

definition mem_alloc :: "config \<Rightarrow> kernel \<Rightarrow> state \<Rightarrow> size_t \<Rightarrow> (addr \<times> state) option" where
  "mem_alloc cfg k st sz =
     (if sz > BLOCK_SIZE_MAX cfg then
        if sz > SIZE_MAX - (ALIGN cfg - 1) then Some (NULL, st)
        else
          let arena_size =
                (ROUND_BYTES cfg sz div ALLOCATOR_PAGE_SIZE cfg) * ALLOCATOR_PAGE_SIZE cfg
                  + BLOCK_STRUCT_SIZE cfg
          in do {
            (block, st1) \<leftarrow> arena_alloc cfg k st arena_size;
            Some (block_to_payload cfg block, st1)
          }
      else
        let size1 = (if sz < BLOCK_SIZE_MIN cfg then BLOCK_SIZE_MIN cfg else sz);
            aligned_size = ROUND_BYTES cfg size1;
            node = tree_find_best (blocks_tree st) aligned_size
        in do {
          (block, st1) \<leftarrow>
            (if node = NULL then arena_alloc cfg k st aligned_size
             else Some (node_to_block cfg node,
                        st\<lparr>blocks_tree := tree_remove (blocks_tree st) node\<rparr>));
          if node = NULL \<and> block = NULL then Some (NULL, st1)
          else
            let (block_r, h) = block_split cfg (heap st1) block aligned_size;
                st2 = st1\<lparr>heap := h\<rparr>
            in do {
              st3 \<leftarrow> (if block_r \<noteq> NULL then tree_add_block cfg st2 block_r else Some st2);
              Some (block_to_payload cfg block, st3)
            }
        })"

definition mem_free :: "config \<Rightarrow> kernel \<Rightarrow> state \<Rightarrow> addr \<Rightarrow> state option" where
  "mem_free cfg k st ptr =
     (if ptr = NULL then Some st
      else
        let block = payload_to_block cfg ptr;
            st1 = st\<lparr>heap := block_clr_flag_busy (heap st) block\<rparr>
        in if block_get_size_curr (heap st1) block > BLOCK_SIZE_MAX cfg
           then kernel_free k st1 block
                  (block_get_size_curr (heap st1) block + BLOCK_STRUCT_SIZE cfg)
           else do {
             st2 \<leftarrow>
               (if \<not> block_get_flag_last (heap st1) block then
                  let block_r = block_next cfg (heap st1) block
                  in if \<not> block_get_flag_busy (heap st1) block_r then
                       do {
                         s \<leftarrow> tree_remove_block cfg st1 block_r;
                         h \<leftarrow> block_merge cfg (heap s) block block_r;
                         Some (s\<lparr>heap := h\<rparr>)
                       }
                     else Some st1
                else Some st1);
             (block', st3) \<leftarrow>
               (if \<not> block_get_flag_first (heap st2) block then
                  let block_l = block_prev cfg (heap st2) block
                  in if \<not> block_get_flag_busy (heap st2) block_l then
                       do {
                         s \<leftarrow> tree_remove_block cfg st2 block_l;
                         h \<leftarrow> block_merge cfg (heap s) block_l block;
                         Some (block_l, s\<lparr>heap := h\<rparr>)
                       }
                     else Some (block, st2)
                else Some (block, st2));
             if block_get_flag_first (heap st3) block' \<and> block_get_flag_last (heap st3) block'
             then kernel_free k st3 block' (ARENA_SIZE cfg)
             else do {
               st4 \<leftarrow> block_dontneed cfg k st3 block';
               tree_add_block cfg st4 block'
             }
           })"

text \<open>The part of \<open>mem_realloc\<close> after the label \<open>move_large_block\<close>.\<close>

definition move_large_block ::
    "config \<Rightarrow> kernel \<Rightarrow> state \<Rightarrow> addr \<Rightarrow> size_t \<Rightarrow> size_t \<Rightarrow> (addr \<times> state) option" where
  "move_large_block cfg k st ptr1 sz sz_curr =
     do {
       (ptr2, st1) \<leftarrow> mem_alloc cfg k st sz;
       if ptr2 \<noteq> NULL then
         do {
           st2 \<leftarrow> mem_free cfg k
                   (st1\<lparr>bytes := memcpy (bytes st1) ptr2 ptr1
                                    (if sz_curr < sz then sz_curr else sz)\<rparr>) ptr1;
           Some (ptr2, st2)
         }
       else Some (ptr2, st1)
     }"

text \<open>
  The shrinking branch of \<open>mem_realloc\<close>: \<open>Some\<close> of a result when it returns, \<open>None\<close>
  when control falls out of the \<open>if (sz < size_curr)\<close> statement.  The state that
  goes on is returned in both cases.
\<close>

definition realloc_shrink ::
    "config \<Rightarrow> state \<Rightarrow> addr \<Rightarrow> size_t \<Rightarrow> (addr option \<times> state) option" where
  "realloc_shrink cfg st block1 sz =
     (if \<not> block_get_flag_last (heap st) block1 then
        let (block_r, h) = block_split cfg (heap st) block1 sz;
            st1 = st\<lparr>heap := h\<rparr>
        in if block_r \<noteq> NULL then
             let block_n = block_next cfg (heap st1) block_r
             in do {
               st2 \<leftarrow>
                 (if \<not> block_get_flag_busy (heap st1) block_n then
                    do {
                      s \<leftarrow> tree_remove_block cfg st1 block_n;
                      h' \<leftarrow> block_merge cfg (heap s) block_r block_n;
                      Some (s\<lparr>heap := h'\<rparr>)
                    }
                  else Some st1);
               st3 \<leftarrow> tree_add_block cfg st2 block_r;
               Some (Some (block_to_payload cfg block1), st3)
             }
           else Some (None, st1)
      else Some (None, st))"

text \<open>The growing branch, with the same convention.\<close>

definition realloc_grow ::
    "config \<Rightarrow> state \<Rightarrow> addr \<Rightarrow> size_t \<Rightarrow> size_t \<Rightarrow> (addr option \<times> state) option" where
  "realloc_grow cfg st block1 sz sz_curr =
     (if \<not> block_get_flag_last (heap st) block1 then
        let block_r = block_next cfg (heap st) block1
        in if \<not> block_get_flag_busy (heap st) block_r then
             let total_size = sz_curr + block_get_size_curr (heap st) block_r
                                + BLOCK_STRUCT_SIZE cfg
             in if total_size \<ge> sz then
                  do {
                    s \<leftarrow> tree_remove_block cfg st block_r;
                    h \<leftarrow> block_merge cfg (heap s) block1 block_r;
                    let (block_n, h') = block_split cfg h block1 sz;
                        st1 = s\<lparr>heap := h'\<rparr>
                    in do {
                      st2 \<leftarrow> (if block_n \<noteq> NULL then tree_add_block cfg st1 block_n
                              else Some st1);
                      Some (Some (block_to_payload cfg block1), st2)
                    }
                  }
                else Some (None, st)
           else Some (None, st)
      else Some (None, st))"

definition mem_realloc ::
    "config \<Rightarrow> kernel \<Rightarrow> state \<Rightarrow> addr \<Rightarrow> size_t \<Rightarrow> (addr \<times> state) option" where
  "mem_realloc cfg k st ptr1 size0 =
     (let size1 = (if size0 < BLOCK_SIZE_MIN cfg then BLOCK_SIZE_MIN cfg else size0);
          sz = ROUND_BYTES cfg size1
      in if ptr1 = NULL then mem_alloc cfg k st sz
         else
           let block1 = payload_to_block cfg ptr1;
               sz_curr = block_get_size_curr (heap st) block1
           in if sz_curr > BLOCK_SIZE_MAX cfg then
                if sz = sz_curr then Some (ptr1, st)
                else move_large_block cfg k st ptr1 sz sz_curr
              else if sz = sz_curr then Some (ptr1, st)
              else do {
                (r1, st1) \<leftarrow> (if sz < sz_curr then realloc_shrink cfg st block1 sz
                              else Some (None, st));
                case r1 of
                  Some p \<Rightarrow> Some (p, st1)
                | None \<Rightarrow>
                    do {
                      (r2, st2) \<leftarrow> (if sz > sz_curr
                                    then realloc_grow cfg st1 block1 sz sz_curr
                                    else Some (None, st1));
                      case r2 of
                        Some p \<Rightarrow> Some (p, st2)
                      | None \<Rightarrow> move_large_block cfg k st2 ptr1 sz sz_curr
                    }
              })"

section \<open>Configurations and demonstration inputs\<close>

text \<open>
  A configuration is admissible when the alignment and the page size are powers of two,
  the alignment is at least 4 (the two low bits of a size carry the flags) and at most the
  page size, and an arena has room for a header and a minimal payload.
\<close>

definition config_ok :: "config \<Rightarrow> bool" where
  "config_ok cfg \<longleftrightarrow>
     (\<exists>a p. 2 \<le> a \<and> a \<le> p \<and> p \<le> 30 \<and> ALIGN cfg = 2 ^ a \<and> ALLOCATOR_PAGE_SIZE cfg = 2 ^ p)
     \<and> 0 < ALLOCATOR_ARENA_PAGES cfg \<and> ALLOCATOR_ARENA_PAGES cfg \<le> 2 ^ 20
     \<and> 0 < sizeof_tree_node cfg \<and> sizeof_tree_node cfg \<le> 2 ^ 30
     \<and> BLOCK_STRUCT_SIZE cfg + BLOCK_SIZE_MIN cfg \<le> ARENA_SIZE cfg"

definition aligned :: "config \<Rightarrow> size_t \<Rightarrow> bool" where
  "aligned cfg s \<longleftrightarrow> s AND (ALIGN cfg - 1) = 0"

text \<open>
  The configuration of the spec's scenarios: pages of 4096 bytes, arenas of 16 pages,
  alignment 16, hence a header of 32 bytes; the index node takes 64 bytes.
\<close>

definition demo_config :: config where
  "demo_config = \<lparr>ALIGN = 16, ALLOCATOR_PAGE_SIZE = 4096, ALLOCATOR_ARENA_PAGES = 16,
                   sizeof_tree_node = 64\<rparr>"

text \<open>A page provider that maps every request at \<open>base\<close>, and one that is out of memory.\<close>

definition demo_kernel :: "addr \<Rightarrow> kernel" where
  "demo_kernel base = \<lparr>mmap_result = (\<lambda>_. Mapped base), munmap_ok = (\<lambda>_ _. True),
                        madvise_ok = (\<lambda>_ _. True)\<rparr>"

definition oom_kernel :: kernel where
  "oom_kernel = \<lparr>mmap_result = (\<lambda>_. Enomem), munmap_ok = (\<lambda>_ _. True),
                  madvise_ok = (\<lambda>_ _. True)\<rparr>"

text \<open>Projections of an operation's result.\<close>

definition result_ptr :: "(addr \<times> state) option \<Rightarrow> addr option" where
  "result_ptr r = map_option fst r"

definition result_state :: "(addr \<times> state) option \<Rightarrow> state option" where
  "result_state r = map_option snd r"

text \<open>The size part of a \<open>size_curr\<close> word, and sizes whose two flag bits are clear.\<close>

definition gs :: "size_t \<Rightarrow> size_t" where
  "gs w = w AND NOT (BLOCK_OCCUPIED OR BLOCK_LAST)"

definition al4 :: "size_t \<Rightarrow> bool" where
  "al4 s \<longleftrightarrow> s AND mask 2 = 0"

text \<open>
  Heaps and states used as concrete inputs.  \<open>demo_heap2\<close> holds an arena of a free
  block of 8192 bytes followed by a busy last block; \<open>demo_heap3\<close> is the same arena
  after 64 bytes were split off the first block.  \<open>demo_full\<close>, \<open>demo_small\<close> and
  \<open>demo_stray\<close> are the states that \<open>mem_alloc\<close> reaches from the initial state for
  the requests 65504, 5 and 65505.  \<open>demo_zero1\<close> to \<open>demo_zero4\<close> are the states
  passed through by \<open>p = mem_alloc(128)\<close>, \<open>mem_realloc(p, SIZE_MAX)\<close>,
  \<open>mem_alloc(96)\<close> and \<open>mem_free(p)\<close>, in this order, from the initial state.
\<close>
definition demo_heap2 :: heap where
  "demo_heap2 =
     (heap initial_state)
       (0x100000 := \<lparr>size_curr = 8192, size_prev = 0, offset = 0\<rparr>,
        0x102020 := \<lparr>size_curr = 57283, size_prev = 8192, offset = 8224\<rparr>)"

definition demo_heap3 :: heap where
  "demo_heap3 =
     (heap initial_state)
       (0x100000 := \<lparr>size_curr = 65, size_prev = 0, offset = 0\<rparr>,
        0x100060 := \<lparr>size_curr = 8096, size_prev = 64, offset = 96\<rparr>,
        0x102020 := \<lparr>size_curr = 57283, size_prev = 8096, offset = 8224\<rparr>)"

definition demo_state2 :: state where
  "demo_state2 = initial_state\<lparr>heap := demo_heap2, mappings := [(0x100000, 65536)]\<rparr>"

definition demo_full :: state where
  "demo_full =
     initial_state
       \<lparr>heap := (heap initial_state)
                  (0x100000 := \<lparr>size_curr = 65507, size_prev = 0, offset = 0\<rparr>),
        mappings := [(0x100000, 65536)],
        ktrace := [K_alloc 65536 0x100000]\<rparr>"

definition demo_small :: state where
  "demo_small =
     initial_state
       \<lparr>heap := (heap initial_state)
                  (0x100000 := \<lparr>size_curr = 65, size_prev = 0, offset = 0\<rparr>,
                   0x100060 := \<lparr>size_curr = 65410, size_prev = 64, offset = 96\<rparr>),
        blocks_tree := [(0x100080, 65408)],
        mappings := [(0x100000, 65536)],
        ktrace := [K_alloc 65536 0x100000]\<rparr>"

definition demo_stray :: state where
  "demo_stray =
     initial_state
       \<lparr>heap := (heap initial_state)
                  (0x100000 := \<lparr>size_curr = 65506, size_prev = 0, offset = 0\<rparr>),
        mappings := [(0x100000, 65536)],
        ktrace := [K_alloc 65536 0x100000]\<rparr>"

definition demo_zero1 :: state where
  "demo_zero1 =
     initial_state
       \<lparr>heap := (heap initial_state)
                  (0x100000 := \<lparr>size_curr = 129, size_prev = 0, offset = 0\<rparr>,
                   0x1000A0 := \<lparr>size_curr = 65346, size_prev = 128, offset = 160\<rparr>),
        blocks_tree := [(0x1000C0, 65344)],
        mappings := [(0x100000, 65536)],
        ktrace := [K_alloc 65536 0x100000]\<rparr>"

definition demo_zero2 :: state where
  "demo_zero2 =
     initial_state
       \<lparr>heap := (heap initial_state)
                  (0x100000 := \<lparr>size_curr = 1, size_prev = 0, offset = 0\<rparr>,
                   0x1000A0 := \<lparr>size_curr = 65346, size_prev = 96, offset = 160\<rparr>,
                   0x100020 := \<lparr>size_curr = 65474, size_prev = 0, offset = 32\<rparr>),
        blocks_tree := [(0x100040, 65472)],
        mappings := [(0x100000, 65536)],
        ktrace := [K_alloc 65536 0x100000]\<rparr>"

definition demo_zero3 :: state where
  "demo_zero3 =
     initial_state
       \<lparr>heap := (heap initial_state)
                  (0x100000 := \<lparr>size_curr = 1, size_prev = 0, offset = 0\<rparr>,
                   0x100020 := \<lparr>size_curr = 97, size_prev = 0, offset = 32\<rparr>,
                   0x1000A0 := \<lparr>size_curr = 65346, size_prev = 96, offset = 160\<rparr>),
        blocks_tree := [(0x1000C0, 65344)],
        mappings := [(0x100000, 65536)],
        ktrace := [K_alloc 65536 0x100000]\<rparr>"

definition demo_zero4 :: state where
  "demo_zero4 =
     initial_state
       \<lparr>heap := (heap initial_state)
                  (0x100000 := \<lparr>size_curr = 0, size_prev = 0, offset = 0\<rparr>,
                   0x100020 := \<lparr>size_curr = 97, size_prev = 0, offset = 32\<rparr>,
                   0x1000A0 := \<lparr>size_curr = 65346, size_prev = 96, offset = 160\<rparr>),
        bytes := memset (bytes initial_state) 0x101000 0x7e 18446744073709547520,
        blocks_tree := [(0x100020, 0), (0x1000C0, 65344)],
        mappings := [(0x100000, 65536)],
        ktrace := [K_alloc 65536 0x100000, K_reset 0x101000 18446744073709547520]\<rparr>"

section \<open>Reachable states and the adjacency property\<close>






text \<open>
  The blocks of the arena mapped at \<open>base\<close>, found as the code finds them, by following
  \<open>block_next\<close> from the first block until the last flag; and the property that no block
  of a mapped arena is free together with its successor.
\<close>

inductive_set arena_blocks :: "config \<Rightarrow> heap \<Rightarrow> addr \<Rightarrow> addr set"
  for cfg :: config and h :: heap and base :: addr where
  first_block: "base \<in> arena_blocks cfg h base"
| next_block: "b \<in> arena_blocks cfg h base \<Longrightarrow> \<not> block_get_flag_last h b
               \<Longrightarrow> block_next cfg h b \<in> arena_blocks cfg h base"






section \<open>The arena invariant\<close>

text \<open>
  The invariant that the three operations keep is stated with a layout for every mapped
  arena: the list of the sizes and busy flags of its blocks, in address order.
  \<open>extent\<close> is the number of bytes that a layout takes, \<open>blocks_from\<close> lists the blocks
  of a layout with their offset and the size of their predecessor, and \<open>offs\<close> lists them
  without the latter.  \<open>hdr_at\<close> says that the header at an offset holds what the layout
  says, \<open>hdr_eq\<close> that two heaps agree on a header.
\<close>

type_synonym layout = "(nat \<times> bool) list"

fun extent :: "config \<Rightarrow> layout \<Rightarrow> nat" where
  "extent cfg [] = 0"
| "extent cfg ((sz, b) # xs) = unat (BLOCK_STRUCT_SIZE cfg) + sz + extent cfg xs"

fun blocks_from :: "config \<Rightarrow> nat \<Rightarrow> nat \<Rightarrow> layout \<Rightarrow> (nat \<times> nat \<times> nat \<times> bool) list" where
  "blocks_from cfg off prev [] = []"
| "blocks_from cfg off prev ((sz, b) # xs) =
     (off, prev, sz, b) # blocks_from cfg (off + unat (BLOCK_STRUCT_SIZE cfg) + sz) sz xs"

fun offs :: "config \<Rightarrow> nat \<Rightarrow> layout \<Rightarrow> (nat \<times> nat \<times> bool) list" where
  "offs cfg off [] = []"
| "offs cfg off ((sz, b) # xs) = (off, sz, b) # offs cfg (off + unat (BLOCK_STRUCT_SIZE cfg) + sz) xs"

definition lastsz :: "nat \<Rightarrow> layout \<Rightarrow> nat" where
  "lastsz p xs = (if xs = [] then p else fst (last xs))"

















section \<open>Arithmetic of sizes and flags\<close>


lemma and_not_mask_push_drop:
  "(x::'a::len word) AND NOT (mask n) = push_bit n (drop_bit n x)"
  by (rule bit_eqI) (auto simp add: bit_simps)

lemma unat_round_down: "unat ((x::'a::len word) AND NOT (mask n)) = unat x div 2 ^ n * 2 ^ n"
proof -
  have le: "unat x div 2 ^ n * 2 ^ n \<le> unat x" by simp
  have lt: "unat x < 2 ^ LENGTH('a)" by (rule unsigned_less)
  have "unat (push_bit n (drop_bit n x))
          = take_bit LENGTH('a) (push_bit n (drop_bit n (unat x)))"
    by (simp add: unsigned_push_bit_eq unat_drop_bit_eq)
  also have "\<dots> = (unat x div 2 ^ n * 2 ^ n) mod 2 ^ LENGTH('a)"
    by (simp add: take_bit_eq_mod push_bit_eq_mult drop_bit_eq_div)
  also have "\<dots> = unat x div 2 ^ n * 2 ^ n"
    by (rule mod_less) (rule le_less_trans[OF le lt])
  finally show ?thesis by (simp add: and_not_mask_push_drop)
qed

lemma unat_2p: "n < 64 \<Longrightarrow> unat ((2::size_t) ^ n) = 2 ^ n"
proof -
  assume n: "n < 64"
  have "(2::size_t) ^ n = of_nat (2 ^ n)" by simp
  then have "unat ((2::size_t) ^ n) = 2 ^ n mod 2 ^ 64" by (simp only: unat_of_nat) simp
  moreover have "(2::nat) ^ n < 2 ^ 64" using n by (rule power_strict_increasing) simp
  ultimately show ?thesis by simp
qed
 
lemma demo_ok: "config_ok demo_config"
  unfolding config_ok_def
  apply (intro conjI)
  apply (rule exI[of _ 4], rule exI[of _ 12])
       apply (simp_all add: demo_config_def BLOCK_STRUCT_SIZE_def BLOCK_SIZE_MIN_def ARENA_SIZE_def ROUND_BYTES_def sizeof_Block_def)
  done

lemma busy_iff_bit: "(w AND BLOCK_OCCUPIED \<noteq> 0) = bit (w::size_t) 0"
  using and_exp_eq_0_iff_not_bit[of w 0] by (simp add: BLOCK_OCCUPIED_def)

lemma last_iff_bit: "(w AND BLOCK_LAST \<noteq> 0) = bit (w::size_t) 1"
  using and_exp_eq_0_iff_not_bit[of w 1] by (simp add: BLOCK_LAST_def)

lemma nat_cases3: "(n::nat) = 0 \<or> n = 1 \<or> 2 \<le> n" by arith

lemma al4_bits: "al4 s \<longleftrightarrow> \<not> bit s 0 \<and> \<not> bit s 1"
proof
  assume "al4 s" then have a: "s AND mask 2 = 0" by (simp add: al4_def)
  have "\<not> bit (s AND mask 2) 0" "\<not> bit (s AND mask 2) 1" unfolding a by simp_all
  then show "\<not> bit s 0 \<and> \<not> bit s 1" by (simp add: bit_simps)
next
  assume a: "\<not> bit s 0 \<and> \<not> bit s 1"
  have "s AND mask 2 = 0"
  proof (rule bit_eqI)
    fix n :: nat
    show "bit (s AND mask 2) n = bit (0::size_t) n" using a nat_cases3[of n]
      by (auto simp add: bit_simps)
  qed
  then show "al4 s" by (simp add: al4_def)
qed

lemma bit_OCC: "bit BLOCK_OCCUPIED n \<longleftrightarrow> n = 0"
  using bit_exp_iff[where 'a=size_t, of 0 n] by (auto simp add: BLOCK_OCCUPIED_def)

lemma bit_LAST: "bit BLOCK_LAST n \<longleftrightarrow> n = 1"
  using bit_exp_iff[where 'a=size_t, of 1 n] by (auto simp add: BLOCK_LAST_def)

lemmas hbits = bit_and_iff bit_or_iff bit_not_iff bit_OCC bit_LAST

lemma bit_gs: "bit (gs w) n \<longleftrightarrow> bit w n \<and> 2 \<le> n"
  using nat_cases3[of n] by (auto simp add: gs_def hbits dest: bit_imp_possible_bit)

lemma gs_eqI: "(\<And>n. 2 \<le> n \<Longrightarrow> bit w n = bit w' n) \<Longrightarrow> gs w = gs w'"
  by (rule bit_eqI) (auto simp add: bit_gs)

lemma al4_gs [simp]: "al4 (gs w)"
  by (simp add: al4_bits bit_gs)


lemma gs_simps [simp]:
  "gs (w OR BLOCK_OCCUPIED) = gs w"
  "gs (w AND NOT BLOCK_OCCUPIED) = gs w"
  "gs (w OR BLOCK_LAST) = gs w"
  "gs (w AND NOT BLOCK_LAST) = gs w"
  by (rule gs_eqI, auto simp add: hbits dest: bit_imp_possible_bit)+

lemma gs_set [simp]: "al4 s \<Longrightarrow> gs (s OR (w AND (BLOCK_OCCUPIED OR BLOCK_LAST))) = s"
  apply (rule bit_eqI) subgoal for n using nat_cases3[of n] by (auto simp add: bit_gs al4_bits hbits) done

lemma busy_simps [simp]:
  "(w OR BLOCK_OCCUPIED) AND BLOCK_OCCUPIED \<noteq> 0"
  "(w AND NOT BLOCK_OCCUPIED) AND BLOCK_OCCUPIED = 0"
  "((w OR BLOCK_LAST) AND BLOCK_OCCUPIED = 0) = (w AND BLOCK_OCCUPIED = 0)"
  "((w AND NOT BLOCK_LAST) AND BLOCK_OCCUPIED = 0) = (w AND BLOCK_OCCUPIED = 0)"
  "al4 s \<Longrightarrow> ((s OR (w AND (BLOCK_OCCUPIED OR BLOCK_LAST))) AND BLOCK_OCCUPIED = 0) = (w AND BLOCK_OCCUPIED = 0)"
  "al4 s \<Longrightarrow> s AND BLOCK_OCCUPIED = 0"
  using busy_iff_bit[of "w OR BLOCK_OCCUPIED"] busy_iff_bit[of "w AND NOT BLOCK_OCCUPIED"]
    busy_iff_bit[of "w OR BLOCK_LAST"] busy_iff_bit[of "w AND NOT BLOCK_LAST"] busy_iff_bit[of w]
    busy_iff_bit[of "s OR (w AND (BLOCK_OCCUPIED OR BLOCK_LAST))"] busy_iff_bit[of s]
  by (auto simp add: hbits al4_bits)

lemma last_simps [simp]:
  "(w OR BLOCK_LAST) AND BLOCK_LAST \<noteq> 0"
  "(w AND NOT BLOCK_LAST) AND BLOCK_LAST = 0"
  "((w OR BLOCK_OCCUPIED) AND BLOCK_LAST = 0) = (w AND BLOCK_LAST = 0)"
  "((w AND NOT BLOCK_OCCUPIED) AND BLOCK_LAST = 0) = (w AND BLOCK_LAST = 0)"
  "al4 s \<Longrightarrow> ((s OR (w AND (BLOCK_OCCUPIED OR BLOCK_LAST))) AND BLOCK_LAST = 0) = (w AND BLOCK_LAST = 0)"
  "al4 s \<Longrightarrow> s AND BLOCK_LAST = 0"
  using last_iff_bit[of "w OR BLOCK_LAST"] last_iff_bit[of "w AND NOT BLOCK_LAST"]
    last_iff_bit[of "w OR BLOCK_OCCUPIED"] last_iff_bit[of "w AND NOT BLOCK_OCCUPIED"] last_iff_bit[of w]
    last_iff_bit[of "s OR (w AND (BLOCK_OCCUPIED OR BLOCK_LAST))"] last_iff_bit[of s]
  by (auto simp add: hbits al4_bits)

lemma unat_round_down_2p:
  "unat ((x::size_t) AND NOT (2 ^ n - 1)) = unat x div 2 ^ n * 2 ^ n"
  using unat_round_down[of x n] by (simp add: mask_eq_decr_exp)

lemma config_okD:
  assumes "config_ok cfg"
  obtains a p where "2 \<le> a" "a \<le> p" "p \<le> 30" "ALIGN cfg = 2 ^ a"
    "ALLOCATOR_PAGE_SIZE cfg = 2 ^ p" "unat (ALIGN cfg) = 2 ^ a"
    "unat (ALLOCATOR_PAGE_SIZE cfg) = 2 ^ p"
proof -
  from assms obtain a p where *: "2 \<le> a" "a \<le> p" "p \<le> 30" "ALIGN cfg = 2 ^ a"
    "ALLOCATOR_PAGE_SIZE cfg = 2 ^ p" unfolding config_ok_def by blast
  then have "a < 64" "p < 64" by simp_all
  then have "unat (ALIGN cfg) = 2 ^ a" "unat (ALLOCATOR_PAGE_SIZE cfg) = 2 ^ p"
    using * by (simp_all add: unat_2p)
  with * show ?thesis by (rule that)
qed

lemma pow2_le_30: "n \<le> 30 \<Longrightarrow> (2::nat) ^ n \<le> 2 ^ 30"
  by (rule power_increasing) simp_all

lemma unat_ROUND_BYTES:
  assumes ok: "config_ok cfg" and nov: "unat x + unat (ALIGN cfg) \<le> 2 ^ 64"
  shows "unat (ROUND_BYTES cfg x)
           = (unat x + unat (ALIGN cfg) - 1) div unat (ALIGN cfg) * unat (ALIGN cfg)"
proof -
  from ok obtain a p where ap: "2 \<le> a" "a \<le> p" "p \<le> 30" "ALIGN cfg = 2 ^ a"
    "unat (ALIGN cfg) = 2 ^ a" by (rule config_okD)
  have pos: "0 < unat (ALIGN cfg)" using ap by simp
  have e: "x + ALIGN cfg - 1 = x + (ALIGN cfg - 1)" by simp
  have "ALIGN cfg \<noteq> 0" using pos by auto
  then have m: "unat (ALIGN cfg - 1) = unat (ALIGN cfg) - 1"
    by (rule unat_minus_one)
  have "unat x + unat (ALIGN cfg - 1) < 2 ^ LENGTH(64)"
    using m nov pos by simp
  then have "unat (x + (ALIGN cfg - 1)) = unat x + unat (ALIGN cfg - 1)"
    by (rule unat_add_lem[THEN iffD1])
  then have "unat (x + ALIGN cfg - 1) = unat x + unat (ALIGN cfg) - 1"
    unfolding e m using pos by simp
  then show ?thesis
    unfolding ROUND_BYTES_def ap(4) using unat_round_down_2p[of "x + 2 ^ a - 1" a] ap
    by simp
qed

lemma round_up_nat:
  fixes A :: nat assumes "0 < A"
  shows "A dvd (n + A - 1) div A * A" "n \<le> (n + A - 1) div A * A" "(n + A - 1) div A * A < n + A"
proof -
  show "A dvd (n + A - 1) div A * A" by simp
  have "(n + A - 1) div A * A = (n + A - 1) - (n + A - 1) mod A"
    by (simp add: minus_mod_eq_div_mult)
  moreover have "(n + A - 1) mod A < A" using assms by simp
  ultimately show "n \<le> (n + A - 1) div A * A" "(n + A - 1) div A * A < n + A"
    using assms by linarith+
qed

lemma config_sizes:
  assumes ok: "config_ok cfg"
  shows "24 \<le> unat (BLOCK_STRUCT_SIZE cfg)"
    and "unat (BLOCK_STRUCT_SIZE cfg) < 24 + unat (ALIGN cfg)"
    and "unat (ALIGN cfg) dvd unat (BLOCK_STRUCT_SIZE cfg)"
    and "unat (sizeof_tree_node cfg) \<le> unat (BLOCK_SIZE_MIN cfg)"
    and "unat (BLOCK_SIZE_MIN cfg) < unat (sizeof_tree_node cfg) + unat (ALIGN cfg)"
    and "unat (ALIGN cfg) dvd unat (BLOCK_SIZE_MIN cfg)"
    and "0 < unat (sizeof_tree_node cfg)"
    and "unat (ALIGN cfg) \<le> 2 ^ 30"
    and "4 \<le> unat (ALIGN cfg)"
    and "unat (sizeof_tree_node cfg) \<le> 2 ^ 30"
proof -
  from ok obtain a p where ap: "2 \<le> a" "a \<le> p" "p \<le> 30" "unat (ALIGN cfg) = 2 ^ a"
    by (rule config_okD)
  have "(2::nat) ^ a \<le> 2 ^ 30" using ap by (intro power_increasing) simp_all
  then show A30: "unat (ALIGN cfg) \<le> 2 ^ 30" using ap by simp
  have "(2::nat) ^ 2 \<le> 2 ^ a" using ap by (intro power_increasing) simp_all
  then show A4: "4 \<le> unat (ALIGN cfg)" using ap by simp
  then have pos: "0 < unat (ALIGN cfg)" by simp
  have n30: "unat (sizeof_tree_node cfg) \<le> 2 ^ 30" and n0: "0 < unat (sizeof_tree_node cfg)"
    using ok unfolding config_ok_def by (simp_all add: word_le_nat_alt word_less_nat_alt)
  show "0 < unat (sizeof_tree_node cfg)" by (rule n0)
  show "unat (sizeof_tree_node cfg) \<le> 2 ^ 30" by (rule n30)
  have b: "unat (BLOCK_STRUCT_SIZE cfg)
             = (24 + unat (ALIGN cfg) - 1) div unat (ALIGN cfg) * unat (ALIGN cfg)"
    unfolding BLOCK_STRUCT_SIZE_def using unat_ROUND_BYTES[OF ok, of sizeof_Block] A30
    by (simp add: sizeof_Block_def)
  show "24 \<le> unat (BLOCK_STRUCT_SIZE cfg)"
    "unat (BLOCK_STRUCT_SIZE cfg) < 24 + unat (ALIGN cfg)"
    "unat (ALIGN cfg) dvd unat (BLOCK_STRUCT_SIZE cfg)"
    unfolding b using round_up_nat[OF pos, of 24] by simp_all
  have m: "unat (BLOCK_SIZE_MIN cfg)
             = (unat (sizeof_tree_node cfg) + unat (ALIGN cfg) - 1) div unat (ALIGN cfg)
                 * unat (ALIGN cfg)"
    unfolding BLOCK_SIZE_MIN_def using unat_ROUND_BYTES[OF ok, of "sizeof_tree_node cfg"] A30 n30
    by simp
  show "unat (sizeof_tree_node cfg) \<le> unat (BLOCK_SIZE_MIN cfg)"
    "unat (BLOCK_SIZE_MIN cfg) < unat (sizeof_tree_node cfg) + unat (ALIGN cfg)"
    "unat (ALIGN cfg) dvd unat (BLOCK_SIZE_MIN cfg)"
    unfolding m using round_up_nat[OF pos, of "unat (sizeof_tree_node cfg)"] by simp_all
qed

lemma aligned_dvd:
  assumes ok: "config_ok cfg"
  shows "aligned cfg s \<longleftrightarrow> unat (ALIGN cfg) dvd unat s"
proof -
  from ok obtain a p where ap: "ALIGN cfg = 2 ^ a" "unat (ALIGN cfg) = 2 ^ a"
    by (rule config_okD)
  have "(s AND (2 ^ a - 1) = 0) = (2 ^ a dvd unat s)"
    using and_mask_dvd_nat[of a s] by (simp add: mask_eq_decr_exp)
  then show ?thesis unfolding aligned_def ap(2) unfolding ap(1) .
qed

lemma dvd_al4:
  assumes ok: "config_ok cfg" and d: "unat (ALIGN cfg) dvd unat s"
  shows "al4 s"
proof -
  from ok obtain a p where ap: "2 \<le> a" "unat (ALIGN cfg) = 2 ^ a"
    by (rule config_okD)
  have "(2::nat) ^ 2 dvd 2 ^ a" using ap by (intro le_imp_power_dvd)
  then have "2 ^ 2 dvd unat s" using d ap by (metis dvd_trans)
  then show ?thesis unfolding al4_def by (simp only: and_mask_dvd_nat)
qed

lemma al4_uint: "al4 x \<longleftrightarrow> 4 dvd uint x"
  using and_mask_dvd[of 2 x] by (simp add: al4_def)

lemma al4_add: "al4 x \<Longrightarrow> al4 y \<Longrightarrow> al4 (x + y)"
  unfolding al4_uint by (simp add: uint_word_ariths dvd_mod_iff)

lemma al4_diff: "al4 x \<Longrightarrow> al4 y \<Longrightarrow> al4 (x - y)"
  unfolding al4_uint by (simp add: uint_word_ariths dvd_mod_iff)

lemma al4_BSS: "config_ok cfg \<Longrightarrow> al4 (BLOCK_STRUCT_SIZE cfg)"
  using config_sizes(3) dvd_al4 by blast

lemma al4_aligned: "config_ok cfg \<Longrightarrow> aligned cfg s \<Longrightarrow> al4 s"
  using aligned_dvd dvd_al4 by blast

lemma unat_lt64: "unat (x::size_t) < 18446744073709551616"
proof -
  have "unat x < 2 ^ LENGTH(64)" by (rule unsigned_less)
  then show ?thesis by simp
qed

lemma flag_nz [simp]: "BLOCK_OCCUPIED \<noteq> 0" "BLOCK_LAST \<noteq> 0"
  by (simp_all add: BLOCK_OCCUPIED_def BLOCK_LAST_def)

lemma bsz: "block_get_size_curr h b = gs (size_curr (h b))"
  by (simp add: block_get_size_curr_def gs_def)

lemmas hop_defs = bsz block_set_size_curr_def block_set_size_prev_def block_get_size_prev_def
  block_set_flag_busy_def block_get_flag_busy_def block_clr_flag_busy_def
  block_get_flag_first_def block_set_flag_last_def block_get_flag_last_def
  block_clr_flag_last_def block_set_offset_def block_get_offset_def block_next_def
  block_prev_def arena_init_def block_init_def

lemma config_arena:
  assumes ok: "config_ok cfg"
  shows "unat (ARENA_SIZE cfg) = unat (ALLOCATOR_ARENA_PAGES cfg) * unat (ALLOCATOR_PAGE_SIZE cfg)"
    and "unat (ARENA_SIZE cfg) \<le> 2 ^ 50"
    and "unat (BLOCK_STRUCT_SIZE cfg) + unat (BLOCK_SIZE_MIN cfg) \<le> unat (ARENA_SIZE cfg)"
    and "unat (BLOCK_SIZE_MAX cfg) = unat (ARENA_SIZE cfg) - unat (BLOCK_STRUCT_SIZE cfg)"
    and "unat (ALIGN cfg) dvd unat (ALLOCATOR_PAGE_SIZE cfg)"
    and "unat (ALLOCATOR_PAGE_SIZE cfg) \<le> 2 ^ 30"
    and "unat (ALIGN cfg) \<le> unat (ALLOCATOR_PAGE_SIZE cfg)"
    and "0 < unat (ALLOCATOR_ARENA_PAGES cfg)"
proof -
  from ok obtain a p where ap: "2 \<le> a" "a \<le> p" "p \<le> 30" "unat (ALIGN cfg) = 2 ^ a"
    "unat (ALLOCATOR_PAGE_SIZE cfg) = 2 ^ p" by (rule config_okD)
  have P30: "(2::nat) ^ p \<le> 2 ^ 30" using ap by (intro power_increasing) simp_all
  then show "unat (ALLOCATOR_PAGE_SIZE cfg) \<le> 2 ^ 30" using ap by simp
  show "unat (ALIGN cfg) dvd unat (ALLOCATOR_PAGE_SIZE cfg)"
    unfolding ap using ap(2) by (rule le_imp_power_dvd)
  have "(2::nat) ^ a \<le> 2 ^ p" using ap by (intro power_increasing) simp_all
  then show "unat (ALIGN cfg) \<le> unat (ALLOCATOR_PAGE_SIZE cfg)" using ap by simp
  have pg: "unat (ALLOCATOR_ARENA_PAGES cfg) \<le> 2 ^ 20" "0 < unat (ALLOCATOR_ARENA_PAGES cfg)"
    using ok unfolding config_ok_def by (simp_all add: word_le_nat_alt word_less_nat_alt)
  show "0 < unat (ALLOCATOR_ARENA_PAGES cfg)" by (rule pg)
  have "unat (ALLOCATOR_ARENA_PAGES cfg) * unat (ALLOCATOR_PAGE_SIZE cfg) \<le> 2 ^ 20 * 2 ^ 30"
    using pg P30 unfolding ap by (intro mult_mono) simp_all
  then have prod: "unat (ALLOCATOR_ARENA_PAGES cfg) * unat (ALLOCATOR_PAGE_SIZE cfg) \<le> 2 ^ 50"
    by simp
  then have "unat (ALLOCATOR_ARENA_PAGES cfg) * unat (ALLOCATOR_PAGE_SIZE cfg) < 2 ^ LENGTH(64)"
    by simp
  then show as: "unat (ARENA_SIZE cfg)
                   = unat (ALLOCATOR_ARENA_PAGES cfg) * unat (ALLOCATOR_PAGE_SIZE cfg)"
    unfolding ARENA_SIZE_def by (rule unat_mult_lem[THEN iffD1])
  show "unat (ARENA_SIZE cfg) \<le> 2 ^ 50" unfolding as by (rule prod)
  have le: "BLOCK_STRUCT_SIZE cfg + BLOCK_SIZE_MIN cfg \<le> ARENA_SIZE cfg"
    using ok unfolding config_ok_def by simp
  have "unat (BLOCK_STRUCT_SIZE cfg) + unat (BLOCK_SIZE_MIN cfg) < 2 ^ LENGTH(64)"
    using config_sizes[OF ok] by simp
  then have "unat (BLOCK_STRUCT_SIZE cfg + BLOCK_SIZE_MIN cfg)
               = unat (BLOCK_STRUCT_SIZE cfg) + unat (BLOCK_SIZE_MIN cfg)"
    by (rule unat_add_lem[THEN iffD1])
  then show sum: "unat (BLOCK_STRUCT_SIZE cfg) + unat (BLOCK_SIZE_MIN cfg) \<le> unat (ARENA_SIZE cfg)"
    using le by (simp add: word_le_nat_alt)
  then have "BLOCK_STRUCT_SIZE cfg \<le> ARENA_SIZE cfg" by (simp add: word_le_nat_alt)
  then show "unat (BLOCK_SIZE_MAX cfg) = unat (ARENA_SIZE cfg) - unat (BLOCK_STRUCT_SIZE cfg)"
    unfolding BLOCK_SIZE_MAX_def by (rule unat_sub)
qed

lemma round_down_nat:
  fixes P :: nat assumes "0 < P"
  shows "P dvd b div P * P" "b div P * P \<le> b" "P dvd m \<Longrightarrow> m \<le> b \<Longrightarrow> m \<le> b div P * P"
proof -
  show "P dvd b div P * P" by simp
  show "b div P * P \<le> b" by simp
  assume "P dvd m" "m \<le> b"
  then obtain k where k: "m = P * k" by (auto simp: dvd_def)
  then have "k \<le> b div P" using \<open>m \<le> b\<close> assms
    by (metis div_le_mono nonzero_mult_div_cancel_left less_numeral_extra(3))
  then show "m \<le> b div P * P" using k by (simp add: mult.commute)
qed

lemma unat_round_down_page:
  assumes ok: "config_ok cfg"
  shows "unat (x AND NOT (ALLOCATOR_PAGE_SIZE cfg - 1))
           = unat x div unat (ALLOCATOR_PAGE_SIZE cfg) * unat (ALLOCATOR_PAGE_SIZE cfg)"
proof -
  from ok obtain a p where ap: "ALLOCATOR_PAGE_SIZE cfg = 2 ^ p"
    "unat (ALLOCATOR_PAGE_SIZE cfg) = 2 ^ p" by (rule config_okD)
  show ?thesis unfolding ap(2) unfolding ap(1) by (rule unat_round_down_2p)
qed

lemma busy_set_id: "block_get_flag_busy h B \<Longrightarrow> block_set_flag_busy h B = h"
proof -
  assume b: "block_get_flag_busy h B"
  have "size_curr (h B) OR BLOCK_OCCUPIED = size_curr (h B)"
  proof (rule bit_eqI)
    fix n show "bit (size_curr (h B) OR BLOCK_OCCUPIED) n = bit (size_curr (h B)) n"
      using b busy_iff_bit[of "size_curr (h B)"]
      by (auto simp add: hbits block_get_flag_busy_def)
  qed
  then show ?thesis by (simp add: block_set_flag_busy_def)
qed

section \<open>Evaluation of the demonstration inputs\<close>

lemma demo_consts [simp]:
  "BLOCK_STRUCT_SIZE demo_config = 32" "BLOCK_SIZE_MIN demo_config = 64"
  "ARENA_SIZE demo_config = 65536" "BLOCK_SIZE_MAX demo_config = 65504"
  "ALIGN demo_config = 16" "ALLOCATOR_PAGE_SIZE demo_config = 4096"
  "sizeof_tree_node demo_config = 64"
  by (simp_all add: demo_config_def BLOCK_STRUCT_SIZE_def BLOCK_SIZE_MIN_def ARENA_SIZE_def
      BLOCK_SIZE_MAX_def ROUND_BYTES_def sizeof_Block_def)

lemmas flag_consts = block_get_size_curr_def BLOCK_OCCUPIED_def BLOCK_LAST_def gs_def NULL_def SIZE_MAX_def

lemmas run_defs = mem_alloc_def mem_free_def mem_realloc_def move_large_block_def
  realloc_shrink_def realloc_grow_def arena_alloc_def tree_add_block_def
  tree_remove_block_def kernel_alloc_def kernel_free_def kernel_reset_def
  block_split_def block_merge_def block_dontneed_def dontneed_offset1_def
  dontneed_offset2_def tree_add_def tree_remove_def TREE_INITIALIZER_def
  block_to_payload_def payload_to_block_def block_to_node_def node_to_block_def
  ROUND_BYTES_def demo_kernel_def oom_kernel_def initial_state_def Let_def
  block_set_size_curr_def block_set_size_prev_def block_get_size_prev_def
  block_set_flag_busy_def block_get_flag_busy_def block_clr_flag_busy_def
  block_get_flag_first_def block_set_flag_last_def block_get_flag_last_def
  block_clr_flag_last_def block_set_offset_def block_get_offset_def block_next_def
  block_prev_def arena_init_def block_init_def result_ptr_def result_state_def
  flag_consts

lemma demo_full_reached:
  "mem_alloc demo_config (demo_kernel 0x100000) initial_state 65504 = Some (0x100020, demo_full)"
  by (simp add: run_defs demo_full_def)

lemma demo_small_reached:
  "mem_alloc demo_config (demo_kernel 0x100000) initial_state 5 = Some (0x100020, demo_small)"
  by (simp add: run_defs demo_small_def)

lemma wrap_consts:
  "(18446744073709551616 :: size_t) = 0" "(- 4096 :: size_t) = 18446744073709547520"
  by simp_all

lemma demo_zero1_reached:
  "mem_alloc demo_config (demo_kernel 0x100000) initial_state 128
     = Some (0x100020, demo_zero1)"
  by (simp add: run_defs demo_zero1_def)

lemma demo_zero2_reached:
  "mem_realloc demo_config (demo_kernel 0x100000) demo_zero1 0x100020 SIZE_MAX
     = Some (0x100020, demo_zero2)"
  by (simp add: run_defs demo_zero1_def demo_zero2_def fun_upd_twist wrap_consts)

lemma demo_zero3_reached:
  "mem_alloc demo_config (demo_kernel 0x100000) demo_zero2 96
     = Some (0x100040, demo_zero3)"
  by (simp add: run_defs demo_zero2_def demo_zero3_def fun_upd_twist)

lemma demo_zero4_reached:
  "mem_free demo_config (demo_kernel 0x100000) demo_zero3 0x100020 = Some demo_zero4"
  by (simp add: run_defs demo_zero3_def demo_zero4_def fun_upd_twist wrap_consts)

lemma demo_zero_dontneed:
  "block_get_size_curr (block_clr_flag_busy (heap demo_zero3) 0x100000) 0x100000 = 0"
  "block_get_offset (block_clr_flag_busy (heap demo_zero3) 0x100000) 0x100000 = 0"
  "\<not> block_get_flag_busy (block_clr_flag_busy (heap demo_zero3) 0x100000) 0x100000"
  "\<not> 0 - sizeof_tree_node demo_config < ALLOCATOR_PAGE_SIZE demo_config"
  "dontneed_offset1 demo_config 0 = 4096"
  "dontneed_offset2 demo_config 0 0 = 0"
  "block_dontneed demo_config (demo_kernel 0x100000)
      (demo_zero3\<lparr>heap := block_clr_flag_busy (heap demo_zero3) 0x100000\<rparr>) 0x100000
     = kernel_reset (demo_kernel 0x100000)
         (demo_zero3\<lparr>heap := block_clr_flag_busy (heap demo_zero3) 0x100000\<rparr>)
         0x101000 18446744073709547520"
  by (simp_all add: run_defs demo_zero3_def wrap_consts)

section \<open>The block layer\<close>

text \<open>
  C6: for a block \<open>B\<close> and an aligned size \<open>s\<close> that is at most the size of \<open>B\<close>,
  \<open>block_split\<close> marks \<open>B\<close> busy.  It forms a remainder block, and returns its address
  \<open>B + BLOCK_STRUCT_SIZE + s\<close>, exactly when the rest \<open>size_curr - s\<close> is at least
  \<open>BLOCK_STRUCT_SIZE + BLOCK_SIZE_MIN\<close>.  Then \<open>B\<close> has size \<open>s\<close> and is not last; the
  remainder is free, is last exactly when \<open>B\<close> was, has size
  \<open>size_curr - s - BLOCK_STRUCT_SIZE\<close>, \<open>size_prev = s\<close> and
  \<open>offset = B.offset + s + BLOCK_STRUCT_SIZE\<close>, and when \<open>B\<close> was not last the block after
  the remainder records the remainder's size as its \<open>size_prev\<close>.  Otherwise the result is
  \<open>NULL\<close> and the only change is that \<open>B\<close> is busy: it keeps its size and its last flag.
\<close>

theorem block_split_spec:
  assumes ok: "config_ok cfg"
    and al: "aligned cfg s"
    and le: "s \<le> block_get_size_curr h B"
  shows "case block_split cfg h B s of (r, h') \<Rightarrow>
     block_get_flag_busy h' B \<and>
     (if BLOCK_STRUCT_SIZE cfg + BLOCK_SIZE_MIN cfg \<le> block_get_size_curr h B - s
      then r = B + BLOCK_STRUCT_SIZE cfg + s \<and> r \<noteq> B \<and>
           block_get_size_curr h' B = s \<and>
           \<not> block_get_flag_busy h' r \<and>
           block_get_flag_last h' r = block_get_flag_last h B \<and>
           \<not> block_get_flag_last h' B \<and>
           block_get_size_curr h' r = block_get_size_curr h B - s - BLOCK_STRUCT_SIZE cfg \<and>
           block_get_size_prev h' r = s \<and>
           block_get_offset h' r = block_get_offset h B + s + BLOCK_STRUCT_SIZE cfg \<and>
           (\<not> block_get_flag_last h B \<longrightarrow>
              block_get_size_prev h' (block_next cfg h' r) = block_get_size_curr h' r)
      else r = NULL \<and> h' = block_set_flag_busy h B \<and>
           block_get_size_curr h' B = block_get_size_curr h B \<and>
           block_get_flag_last h' B = block_get_flag_last h B)"
proof -
  let ?c = "gs (size_curr (h B))"
  let ?S = "BLOCK_STRUCT_SIZE cfg"
  have le: "s \<le> ?c" using le by (simp add: bsz)
  have a4s: "al4 s" using ok al by (rule al4_aligned)
  have a4S: "al4 ?S" using ok by (rule al4_BSS)
  have a4r: "al4 (?c - s - ?S)" using a4s a4S by (intro al4_diff) simp_all
  have nov: "unat ?S + unat (BLOCK_SIZE_MIN cfg) < 2 ^ 64"
    using config_sizes[OF ok] by simp
  have Spos: "0 < unat ?S" using config_sizes[OF ok] by simp
  have Mpos: "0 < unat (BLOCK_SIZE_MIN cfg)" using config_sizes[OF ok] by simp
  have sum: "unat (?S + BLOCK_SIZE_MIN cfg) = unat ?S + unat (BLOCK_SIZE_MIN cfg)"
    using nov by (simp add: unat_add_lem[THEN iffD1])
  have les: "unat s \<le> unat ?c" using le by (simp add: word_le_nat_alt)
  show ?thesis
  proof (cases "?S + BLOCK_SIZE_MIN cfg \<le> ?c - s")
    case False
    then show ?thesis
      by (simp add: block_split_def Let_def hop_defs)
  next
    case True
    then have big: "unat ?S + unat (BLOCK_SIZE_MIN cfg) \<le> unat ?c - unat s"
      using les sum by (simp add: word_le_nat_alt unat_sub)
    have "unat (?S + s) = unat ?S + unat s"
      using big les unat_lt64[of ?c] by (intro unat_add_lem[THEN iffD1]) simp
    then have Ss0: "?S + s \<noteq> 0" using Spos by (metis add_is_0 not_less_zero unat_eq_zero zero_less_iff_neq_zero unsigned_0)
    have cs: "unat (?c - s) = unat ?c - unat s" using le by (simp add: unat_sub)
    have Sle: "?S \<le> ?c - s" using big cs by (simp add: word_le_nat_alt)
    have "unat (?c - s - ?S) = unat ?c - unat s - unat ?S"
      using Sle cs by (simp add: unat_sub)
    then have rpos: "0 < unat (?c - s - ?S)" using big Mpos by simp
    have "?S + (?c - s - ?S) = ?c - s" by simp
    moreover have "?c - s \<noteq> 0" using big Mpos cs by (metis not_less_zero add_is_0 le_zero_eq unsigned_0 zero_less_iff_neq_zero)
    ultimately have Sr0: "?S + (?c - s - ?S) \<noteq> 0" by simp
    have rB: "B + ?S + s \<noteq> B" using Ss0 by (simp add: add.assoc)
    have nr: "B + ?S + s + ?S + (?c - s - ?S) \<noteq> B + ?S + s" using Sr0 by (simp add: add.assoc)
    show ?thesis using True rB nr a4s a4r
      apply (simp add: block_split_def Let_def hop_defs)
      done
  qed
qed

theorem block_split_spec_witness:
  "config_ok demo_config \<and> aligned demo_config 64
   \<and> 64 \<le> block_get_size_curr demo_heap2 0x100000
   \<and> fst (block_split demo_config demo_heap2 0x100000 64) = 0x100060
   \<and> block_get_flag_busy (snd (block_split demo_config demo_heap2 0x100000 64)) 0x100000
   \<and> block_get_size_curr (snd (block_split demo_config demo_heap2 0x100000 64)) 0x100000 = 64
   \<and> block_get_size_curr (snd (block_split demo_config demo_heap2 0x100000 64)) 0x100060 = 8096
   \<and> block_get_size_prev (snd (block_split demo_config demo_heap2 0x100000 64)) 0x102020 = 8096"
proof -
  have h2: "aligned demo_config 64" by (simp add: aligned_def)
  have h3: "64 \<le> block_get_size_curr demo_heap2 0x100000"
    by (simp add: demo_heap2_def flag_consts)
  have nl: "\<not> block_get_flag_last demo_heap2 0x100000"
    by (simp add: demo_heap2_def block_get_flag_last_def flag_consts)
  have c: "block_get_size_curr demo_heap2 0x100000 = 8192"
    by (simp add: demo_heap2_def flag_consts)
  show ?thesis
    using block_split_spec[OF demo_ok h2 h3] demo_ok h2 h3 nl
    by (auto simp add: c case_prod_beta block_next_def)
qed

text \<open>
  C7: for a block \<open>B\<close> whose right neighbour \<open>Br\<close> is free, \<open>block_merge\<close> succeeds and
  gives \<open>B\<close> the size \<open>B.size_curr + Br.size_curr + BLOCK_STRUCT_SIZE\<close>; \<open>B\<close> is busy
  afterwards exactly when it was before.  When \<open>Br\<close> was last, \<open>B\<close> is last afterwards;
  otherwise the last flag of \<open>B\<close> is unchanged and the block that followed \<open>Br\<close>, now the
  one that follows \<open>B\<close>, records the new size as its \<open>size_prev\<close>.
\<close>

theorem block_merge_spec:
  assumes ok: "config_ok cfg"
    and nx: "block_next cfg h B = Br"
    and fr: "\<not> block_get_flag_busy h Br"
  shows "\<exists>h'. block_merge cfg h B Br = Some h' \<and>
      block_get_size_curr h' B
        = block_get_size_curr h B + block_get_size_curr h Br + BLOCK_STRUCT_SIZE cfg \<and>
      block_get_flag_busy h' B = block_get_flag_busy h B \<and>
      (if block_get_flag_last h Br then block_get_flag_last h' B
       else block_get_flag_last h' B = block_get_flag_last h B \<and>
            block_next cfg h' B = block_next cfg h Br \<and>
            block_get_size_prev h' (block_next cfg h' B) = block_get_size_curr h' B)"
proof -
  let ?S = "BLOCK_STRUCT_SIZE cfg"
  let ?n = "gs (size_curr (h B)) + gs (size_curr (h Br)) + ?S"
  define h1 where "h1 = block_set_size_curr h B ?n"
  have a4S: "al4 ?S" using ok by (rule al4_BSS)
  have a4n: "al4 ?n" using a4S by (intro al4_add) simp_all
  have nx': "B + ?S + gs (size_curr (h B)) = Br" using nx by (simp add: block_next_def bsz)
  have e: "B + ?S + ?n = Br + ?S + gs (size_curr (h Br))" unfolding nx'[symmetric] by simp
  have l1: "block_get_flag_last h1 Br = block_get_flag_last h Br"
    using a4n by (cases "Br = B") (simp_all add: h1_def hop_defs)
  have n1: "block_next cfg h1 Br = B + ?S + ?n"
  proof (cases "Br = B")
    case True then show ?thesis using a4n by (simp add: h1_def hop_defs)
  next
    case False then show ?thesis unfolding e by (simp add: h1_def hop_defs)
  qed
  have m: "block_merge cfg h B Br =
             Some (if block_get_flag_last h Br then block_set_flag_last h1 B
                   else block_set_size_prev h1 (B + ?S + ?n) ?n)"
    using fr nx l1 n1 by (simp add: block_merge_def Let_def h1_def bsz)
  have nB: "block_next cfg h Br = B + ?S + ?n" unfolding e by (simp add: block_next_def bsz)
  show ?thesis unfolding m nB using a4n
    by (simp add: h1_def hop_defs)
qed

theorem block_merge_spec_witness:
  "config_ok demo_config \<and> block_next demo_config demo_heap3 0x100000 = 0x100060
   \<and> \<not> block_get_flag_busy demo_heap3 0x100060
   \<and> (\<exists>h'. block_merge demo_config demo_heap3 0x100000 0x100060 = Some h'
          \<and> block_get_size_curr h' 0x100000 = 8192
          \<and> block_get_flag_busy h' 0x100000
          \<and> block_get_size_prev h' 0x102020 = 8192)"
proof -
  have h2: "block_next demo_config demo_heap3 0x100000 = 0x100060"
    by (simp add: demo_heap3_def block_next_def flag_consts)
  have h3: "\<not> block_get_flag_busy demo_heap3 0x100060"
    by (simp add: demo_heap3_def block_get_flag_busy_def flag_consts)
  have v: "block_get_size_curr demo_heap3 0x100000 = 64"
    "block_get_size_curr demo_heap3 0x100060 = 8096"
    "block_get_flag_busy demo_heap3 0x100000"
    "\<not> block_get_flag_last demo_heap3 0x100060"
    "block_next demo_config demo_heap3 0x100060 = 0x102020"
    by (simp_all add: demo_heap3_def block_get_flag_busy_def block_get_flag_last_def
        block_next_def flag_consts)
  show ?thesis
    using block_merge_spec[OF demo_ok h2 h3] demo_ok h2 h3
    by (auto simp add: v)
qed

text \<open>
  The offsets of \<open>block_dontneed\<close> on a block that holds an index node: take a block of
  at least \<open>sizeof(tree_node_type)\<close> bytes that lies in its arena without wrapping around
  the address space, and on which \<open>block_dontneed\<close> gets past its size guard.  Then the
  lower page-aligned offset is at most the upper one, their difference is a multiple of the
  page size (the assertion of the source holds), the lower offset is at or beyond the end
  of the index node, and \<open>block_dontneed\<close> makes no call to the page provider when the two
  offsets are equal and exactly one \<open>kernel_reset\<close> call, for the range between them,
  otherwise.  The two hypotheses on the size are needed: the guard of the source is the
  unsigned subtraction \<open>size_curr - sizeof(tree_node_type) < ALLOCATOR_PAGE_SIZE\<close>, which a
  block smaller than an index node passes by wrapping around.
\<close>

theorem block_dontneed_offsets:
  assumes ok: "config_ok cfg"
    and sz: "sz = block_get_size_curr (heap st) B"
    and off: "off = block_get_offset (heap st) B"
    and node: "sizeof_tree_node cfg \<le> sz"
    and fit: "unat off + unat (BLOCK_STRUCT_SIZE cfg) + unat sz < 2 ^ 64"
    and guard: "\<not> sz - sizeof_tree_node cfg < ALLOCATOR_PAGE_SIZE cfg"
  shows "dontneed_offset1 cfg off \<le> dontneed_offset2 cfg off sz
       \<and> (dontneed_offset2 cfg off sz - dontneed_offset1 cfg off)
            AND (ALLOCATOR_PAGE_SIZE cfg - 1) = 0
       \<and> off + BLOCK_STRUCT_SIZE cfg + sizeof_tree_node cfg \<le> dontneed_offset1 cfg off
       \<and> block_dontneed cfg k st B =
           (if dontneed_offset1 cfg off = dontneed_offset2 cfg off sz then Some st
            else kernel_reset k st (B + (dontneed_offset1 cfg off - off))
                   (dontneed_offset2 cfg off sz - dontneed_offset1 cfg off))"
proof -
  let ?S = "BLOCK_STRUCT_SIZE cfg" and ?N = "sizeof_tree_node cfg"
  let ?P = "ALLOCATOR_PAGE_SIZE cfg"
  from ok obtain a p where ap: "ALLOCATOR_PAGE_SIZE cfg = 2 ^ p"
    "unat (ALLOCATOR_PAGE_SIZE cfg) = 2 ^ p" by (rule config_okD)
  have Ppos: "0 < unat ?P" using ap by simp
  have P0: "?P \<noteq> 0" using Ppos by auto
  have Pm: "unat (?P - 1) = unat ?P - 1" using P0 by (rule unat_minus_one)
  have nle: "unat ?N \<le> unat sz" using node by (simp add: word_le_nat_alt)
  have "unat (sz - ?N) = unat sz - unat ?N" using node by (rule unat_sub)
  then have g: "unat ?N + unat ?P \<le> unat sz"
    using guard nle by (simp add: word_less_nat_alt)
  define a' where "a' = unat off + unat ?S + unat ?N"
  define b' where "b' = unat off + unat sz + unat ?S"
  have ab: "a' + unat ?P \<le> b'" "b' < 2 ^ 64" using g fit by (simp_all add: a'_def b'_def)
  have u1: "unat (off + ?S) = unat off + unat ?S"
    using fit by (intro unat_add_lem[THEN iffD1]) simp
  have u2: "unat (off + ?S + ?N) = a'"
    unfolding a'_def u1[symmetric] using ab u1 by (intro unat_add_lem[THEN iffD1]) (simp add: a'_def)
  have u3: "unat (off + ?S + ?N + (?P - 1)) = a' + unat ?P - 1"
    unfolding u2[symmetric] using ab u2 Pm Ppos
    by (subst unat_add_lem[THEN iffD1]) simp_all
  have e3: "off + ?S + ?N + ?P - 1 = off + ?S + ?N + (?P - 1)" by simp
  have u4: "unat (off + sz) = unat off + unat sz"
    using fit by (intro unat_add_lem[THEN iffD1]) simp
  have u5: "unat (off + sz + ?S) = b'"
    unfolding b'_def u4[symmetric] using fit u4 by (intro unat_add_lem[THEN iffD1]) simp
  have o1: "unat (dontneed_offset1 cfg off) = (a' + unat ?P - 1) div unat ?P * unat ?P"
    unfolding dontneed_offset1_def e3 unat_round_down_page[OF ok] u3 ..
  have o2: "unat (dontneed_offset2 cfg off sz) = b' div unat ?P * unat ?P"
    unfolding dontneed_offset2_def unat_round_down_page[OF ok] u5 ..
  note ru = round_up_nat[OF Ppos, of a']
  note rd = round_down_nat[OF Ppos, where b = b']
  have "(a' + unat ?P - 1) div unat ?P * unat ?P \<le> b'" using ru(3) ab by simp
  with ru(1) have le_nat: "unat (dontneed_offset1 cfg off) \<le> unat (dontneed_offset2 cfg off sz)"
    unfolding o1 o2 by (rule rd(3))
  then have le: "dontneed_offset1 cfg off \<le> dontneed_offset2 cfg off sz"
    by (simp add: word_le_nat_alt)
  have d: "unat (dontneed_offset2 cfg off sz - dontneed_offset1 cfg off)
             = unat (dontneed_offset2 cfg off sz) - unat (dontneed_offset1 cfg off)"
    using le by (rule unat_sub)
  have "unat ?P dvd unat (dontneed_offset2 cfg off sz - dontneed_offset1 cfg off)"
    unfolding d o1 o2 by (intro dvd_diff_nat) simp_all
  then have "2 ^ p dvd unat (dontneed_offset2 cfg off sz - dontneed_offset1 cfg off)"
    using ap by simp
  then have "(dontneed_offset2 cfg off sz - dontneed_offset1 cfg off) AND mask p = 0"
    by (simp only: and_mask_dvd_nat)
  then have asrt: "(dontneed_offset2 cfg off sz - dontneed_offset1 cfg off) AND (?P - 1) = 0"
    unfolding ap(1) by (simp add: mask_eq_decr_exp)
  have lo: "off + ?S + ?N \<le> dontneed_offset1 cfg off"
    using ru(2) unfolding word_le_nat_alt u2 o1 .
  have run: "block_dontneed cfg k st B =
           (if dontneed_offset1 cfg off = dontneed_offset2 cfg off sz then Some st
            else kernel_reset k st (B + (dontneed_offset1 cfg off - off))
                   (dontneed_offset2 cfg off sz - dontneed_offset1 cfg off))"
    using guard asrt unfolding block_dontneed_def sz[symmetric] off[symmetric] Let_def
    by simp
  show ?thesis using le asrt lo run by blast
qed

theorem block_dontneed_offsets_witness:
  "config_ok demo_config
   \<and> 8192 = block_get_size_curr (heap demo_state2) 0x100000
   \<and> 0 = block_get_offset (heap demo_state2) 0x100000
   \<and> sizeof_tree_node demo_config \<le> 8192
   \<and> unat (0::size_t) + unat (BLOCK_STRUCT_SIZE demo_config) + unat (8192::size_t) < 2 ^ 64
   \<and> \<not> 8192 - sizeof_tree_node demo_config < ALLOCATOR_PAGE_SIZE demo_config
   \<and> dontneed_offset1 demo_config 0 = 4096
   \<and> dontneed_offset2 demo_config 0 8192 = 8192
   \<and> block_dontneed demo_config (demo_kernel 0x100000) demo_state2 0x100000
        = kernel_reset (demo_kernel 0x100000) demo_state2 0x101000 4096"
proof -
  have h2: "8192 = block_get_size_curr (heap demo_state2) 0x100000"
    and h3: "0 = block_get_offset (heap demo_state2) 0x100000"
    by (simp_all add: demo_state2_def demo_heap2_def block_get_size_curr_def
        block_get_offset_def flag_consts)
  have h4: "sizeof_tree_node demo_config \<le> 8192" by simp
  have h5: "unat (0::size_t) + unat (BLOCK_STRUCT_SIZE demo_config) + unat (8192::size_t)
              < 2 ^ 64" by simp
  have h6: "\<not> 8192 - sizeof_tree_node demo_config < ALLOCATOR_PAGE_SIZE demo_config"
    by simp
  have o: "dontneed_offset1 demo_config 0 = 4096" "dontneed_offset2 demo_config 0 8192 = 8192"
    by (simp_all add: dontneed_offset1_def dontneed_offset2_def)
  show ?thesis
    using block_dontneed_offsets[OF demo_ok h2 h3 h4 h5 h6, of "demo_kernel 0x100000"]
      demo_ok h2 h3 h4 h5 h6
    by (simp add: o)
qed

text \<open>
  C10, the code at a failing input: \<open>p = mem_alloc(128)\<close>, \<open>mem_realloc(p, SIZE_MAX)\<close>,
  \<open>mem_alloc(96)\<close>, \<open>mem_free(p)\<close>.  \<open>mem_realloc\<close> rounds its request without the
  overflow test of \<open>mem_alloc\<close>, so \<open>SIZE_MAX\<close> is normalised to 0 and the block of \<open>p\<close> is
  shrunk in place to the size 0; the next request takes the block behind it.  When \<open>p\<close> is
  freed, its block, free and of size 0, has no free neighbour and goes to \<open>block_dontneed\<close>.
  There \<open>0 - sizeof(tree_node_type)\<close> wraps around, so the size guard is passed; the lower
  offset is 4096 and the upper offset is 0, so the lower offset exceeds the upper one, and
  \<open>kernel_reset\<close> is called at \<open>0x101000\<close> with the underflowed length
  18446744073709547520, which is 4096 below 2 to the power 64.
\<close>

theorem block_dontneed_length_underflows:
  "mem_alloc demo_config (demo_kernel 0x100000) initial_state 128
     = Some (0x100020, demo_zero1)
   \<and> mem_realloc demo_config (demo_kernel 0x100000) demo_zero1 0x100020 SIZE_MAX
       = Some (0x100020, demo_zero2)
   \<and> mem_alloc demo_config (demo_kernel 0x100000) demo_zero2 96
       = Some (0x100040, demo_zero3)
   \<and> mem_free demo_config (demo_kernel 0x100000) demo_zero3 0x100020 = Some demo_zero4
   \<and> block_get_size_curr (block_clr_flag_busy (heap demo_zero3) 0x100000) 0x100000 = 0
   \<and> block_get_offset (block_clr_flag_busy (heap demo_zero3) 0x100000) 0x100000 = 0
   \<and> \<not> block_get_flag_busy (block_clr_flag_busy (heap demo_zero3) 0x100000) 0x100000
   \<and> \<not> 0 - sizeof_tree_node demo_config < ALLOCATOR_PAGE_SIZE demo_config
   \<and> dontneed_offset1 demo_config 0 = 4096
   \<and> dontneed_offset2 demo_config 0 0 = 0
   \<and> \<not> dontneed_offset1 demo_config 0 \<le> dontneed_offset2 demo_config 0 0
   \<and> dontneed_offset2 demo_config 0 0 - dontneed_offset1 demo_config 0 = 18446744073709547520
   \<and> block_dontneed demo_config (demo_kernel 0x100000)
         (demo_zero3\<lparr>heap := block_clr_flag_busy (heap demo_zero3) 0x100000\<rparr>) 0x100000
       = kernel_reset (demo_kernel 0x100000)
           (demo_zero3\<lparr>heap := block_clr_flag_busy (heap demo_zero3) 0x100000\<rparr>)
           0x101000 18446744073709547520
   \<and> ktrace demo_zero4 = [K_alloc 65536 0x100000, K_reset 0x101000 18446744073709547520]"
proof -
  have o: "\<not> dontneed_offset1 demo_config 0 \<le> dontneed_offset2 demo_config 0 0"
    "dontneed_offset2 demo_config 0 0 - dontneed_offset1 demo_config 0 = 18446744073709547520"
    unfolding demo_zero_dontneed(5,6) by (simp_all add: wrap_consts)
  have t: "ktrace demo_zero4 = [K_alloc 65536 0x100000, K_reset 0x101000 18446744073709547520]"
    by (simp add: demo_zero4_def)
  show ?thesis
    using demo_zero1_reached demo_zero2_reached demo_zero3_reached demo_zero4_reached
      demo_zero_dontneed o t
    by blast
qed

section \<open>Allocation\<close>

text \<open>
  C9: a request above \<open>BLOCK_SIZE_MAX\<close> that also exceeds \<open>SIZE_MAX - (ALIGN - 1)\<close> makes
  \<open>mem_alloc\<close> return \<open>NULL\<close> with the state, and so the record of page-provider calls,
  unchanged; \<open>SIZE_MAX\<close> is such a request.
\<close>

theorem mem_alloc_overflow:
  assumes ok: "config_ok cfg"
  shows "(BLOCK_SIZE_MAX cfg < s \<and> SIZE_MAX - (ALIGN cfg - 1) < s
            \<longrightarrow> mem_alloc cfg k st s = Some (NULL, st))
         \<and> mem_alloc cfg k st SIZE_MAX = Some (NULL, st)"
proof -
  have 1: "BLOCK_SIZE_MAX cfg < s \<and> SIZE_MAX - (ALIGN cfg - 1) < s
            \<longrightarrow> mem_alloc cfg k st s = Some (NULL, st)" for s
    by (simp add: mem_alloc_def)
  have A: "4 \<le> unat (ALIGN cfg)" "unat (ALIGN cfg) \<le> 2 ^ 30"
    using config_sizes[OF ok] by simp_all
  then have "ALIGN cfg \<noteq> 0" by auto
  then have "unat (ALIGN cfg - 1) = unat (ALIGN cfg) - 1" by (rule unat_minus_one)
  then have al: "0 < unat (ALIGN cfg - 1)" "unat (ALIGN cfg - 1) < 2 ^ 30" using A by simp_all
  have sm: "unat SIZE_MAX = 2 ^ 64 - 1" by (simp add: SIZE_MAX_def)
  have "ALIGN cfg - 1 \<le> SIZE_MAX" using al sm by (simp add: word_le_nat_alt)
  then have "unat (SIZE_MAX - (ALIGN cfg - 1)) = unat SIZE_MAX - unat (ALIGN cfg - 1)"
    by (rule unat_sub)
  then have 2: "SIZE_MAX - (ALIGN cfg - 1) < SIZE_MAX"
    using al sm by (simp add: word_less_nat_alt)
  have 3: "BLOCK_SIZE_MAX cfg < SIZE_MAX"
    using config_arena[OF ok] sm by (simp add: word_less_nat_alt)
  show ?thesis using 1 2 3 by blast
qed

theorem mem_alloc_overflow_witness:
  "config_ok demo_config
   \<and> BLOCK_SIZE_MAX demo_config < 0xFFFFFFFFFFFFFFF8
   \<and> SIZE_MAX - (ALIGN demo_config - 1) < 0xFFFFFFFFFFFFFFF8
   \<and> mem_alloc demo_config (demo_kernel 0x100000) initial_state 0xFFFFFFFFFFFFFFF8
        = Some (NULL, initial_state)
   \<and> mem_alloc demo_config (demo_kernel 0x100000) initial_state SIZE_MAX
        = Some (NULL, initial_state)"
proof -
  have h: "BLOCK_SIZE_MAX demo_config < 0xFFFFFFFFFFFFFFF8"
    "SIZE_MAX - (ALIGN demo_config - 1) < 0xFFFFFFFFFFFFFFF8"
    by (simp_all add: SIZE_MAX_def)
  show ?thesis
    using mem_alloc_overflow[OF demo_ok, of "0xFFFFFFFFFFFFFFF8" "demo_kernel 0x100000"
        initial_state] demo_ok h
    by blast
qed

text \<open>
  C1, the code at a failing input: for the oversized request 100000 and a page provider
  that is out of memory, \<open>mem_alloc\<close> leaves the heap, the index and the mappings as they
  were, but it returns \<open>block_to_payload(NULL)\<close>, the address 32, and not \<open>NULL\<close>.
\<close>

theorem mem_alloc_oversized_enomem:
  "mem_alloc demo_config oom_kernel initial_state 100000
     = Some (32, initial_state\<lparr>ktrace := [K_alloc 98336 NULL]\<rparr>)"
  by (simp add: run_defs)

text \<open>
  C2, the code at a failing input: for the oversized request 100000 the arena asked of the
  page provider has 98336 bytes, which is 100000 rounded down to whole pages plus a header
  (rounding up gives 102432), and the block set up in it has a payload of 98304 bytes,
  less than the request; its \<open>size_curr\<close> word 98306 carries the last flag only, so the
  block is not marked busy.
\<close>

theorem mem_alloc_oversized_rounds_down:
  "mem_alloc demo_config (demo_kernel 0x100000) initial_state 100000
     = Some (0x100020,
         initial_state
           \<lparr>heap := (heap initial_state)
                      (0x100000 := \<lparr>size_curr = 98306, size_prev = 0, offset = 0\<rparr>),
            mappings := [(0x100000, 98336)],
            ktrace := [K_alloc 98336 0x100000]\<rparr>)"
  by (simp add: run_defs)

text \<open>
  C5, the code at a failing input: the request 65505 is above \<open>BLOCK_SIZE_MAX = 65504\<close>,
  but its arena size, rounded down to whole pages, is not, so \<open>arena_alloc\<close> maps a default
  arena.  The state reached holds a block whose busy flag is clear and whose size is
  \<open>BLOCK_SIZE_MAX\<close>, while the index is empty.
\<close>

theorem oversized_request_leaves_unindexed_free_block:
  "BLOCK_SIZE_MAX demo_config < 65505
   \<and> mem_alloc demo_config (demo_kernel 0x100000) initial_state 65505
        = Some (0x100020, demo_stray)
   \<and> \<not> block_get_flag_busy (heap demo_stray) 0x100000
   \<and> block_get_size_curr (heap demo_stray) 0x100000 \<le> BLOCK_SIZE_MAX demo_config
   \<and> blocks_tree demo_stray = []"
  by (simp add: run_defs demo_stray_def)

section \<open>Reallocation\<close>

text \<open>
  C3, refuted as stated: in the state reached by \<open>mem_alloc 65504\<close> the block at 0x100000
  is busy, last in its arena and not oversized, and 64 is a normalised size below its
  size; \<open>mem_realloc\<close> for 64 bytes returns 0x200020, a pointer into a fresh arena, and
  not the original pointer 0x100020.
\<close>

theorem realloc_shrink_last_counterexample:
  "block_get_flag_busy (heap demo_full) 0x100000
   \<and> block_get_flag_last (heap demo_full) 0x100000
   \<and> block_get_size_curr (heap demo_full) 0x100000 = 65504
   \<and> \<not> BLOCK_SIZE_MAX demo_config < 65504
   \<and> ROUND_BYTES demo_config 64 = 64
   \<and> result_ptr (mem_realloc demo_config (demo_kernel 0x200000) demo_full 0x100020 64)
        = Some 0x200020"
  by (simp add: run_defs demo_full_def)

text \<open>
  C3, as amended: for a busy block \<open>B\<close> that is not oversized and a normalised request
  \<open>s\<close> below its size, if \<open>B\<close> is last in its arena or \<open>block_split\<close> would leave no
  remainder, \<open>mem_realloc\<close> takes the move path.  It allocates a fresh block with
  \<open>mem_alloc s\<close>; when that returns \<open>NULL\<close> it returns \<open>NULL\<close>; otherwise it copies \<open>s\<close>
  bytes from the old payload to the new one, frees the old pointer and returns the new
  one.
\<close>

theorem realloc_shrink_moves:
  assumes p: "p \<noteq> NULL"
    and B: "B = payload_to_block cfg p"
    and c: "c = block_get_size_curr (heap st) B"
    and small: "\<not> BLOCK_SIZE_MAX cfg < c"
    and busy: "block_get_flag_busy (heap st) B"
    and s: "s = ROUND_BYTES cfg (if s0 < BLOCK_SIZE_MIN cfg then BLOCK_SIZE_MIN cfg else s0)"
    and lt: "s < c"
    and nosplit: "block_get_flag_last (heap st) B
                  \<or> \<not> BLOCK_STRUCT_SIZE cfg + BLOCK_SIZE_MIN cfg \<le> c - s"
  shows "mem_realloc cfg k st p s0 =
     (case mem_alloc cfg k st s of
        None \<Rightarrow> None
      | Some (ptr2, st1) \<Rightarrow>
          if ptr2 = NULL then Some (NULL, st1)
          else map_option (Pair ptr2)
                 (mem_free cfg k (st1\<lparr>bytes := memcpy (bytes st1) ptr2 p s\<rparr>) p))"
proof -
  have sh: "realloc_shrink cfg st B s = Some (None, st)"
  proof (cases "block_get_flag_last (heap st) B")
    case True then show ?thesis by (simp add: realloc_shrink_def)
  next
    case False
    with nosplit have ns: "\<not> BLOCK_STRUCT_SIZE cfg + BLOCK_SIZE_MIN cfg \<le> c - s" by simp
    have "block_split cfg (heap st) B s = (NULL, heap st)"
      using ns busy_set_id[OF busy] c
      by (simp add: block_split_def Let_def block_get_size_curr_def)
    then show ?thesis using False by (simp add: realloc_shrink_def)
  qed
  have ne: "s \<noteq> c" "\<not> c < s" using lt by auto
  have mv: "move_large_block cfg k st p s c =
     (case mem_alloc cfg k st s of
        None \<Rightarrow> None
      | Some (ptr2, st1) \<Rightarrow>
          if ptr2 = NULL then Some (NULL, st1)
          else map_option (Pair ptr2)
                 (mem_free cfg k (st1\<lparr>bytes := memcpy (bytes st1) ptr2 p s\<rparr>) p))"
    using ne by (auto simp add: move_large_block_def split: option.splits prod.splits
        simp: map_option_case bind_eq_None_conv)
  show ?thesis
    unfolding mv[symmetric]
    using p small lt ne sh
    by (simp add: mem_realloc_def Let_def B[symmetric] c[symmetric] s[symmetric])
qed

theorem realloc_shrink_moves_witness:
  "0x100020 \<noteq> NULL
   \<and> 0x100000 = payload_to_block demo_config 0x100020
   \<and> 65504 = block_get_size_curr (heap demo_full) 0x100000
   \<and> \<not> BLOCK_SIZE_MAX demo_config < 65504
   \<and> block_get_flag_busy (heap demo_full) 0x100000
   \<and> 64 = ROUND_BYTES demo_config
              (if 64 < BLOCK_SIZE_MIN demo_config then BLOCK_SIZE_MIN demo_config else 64)
   \<and> (64::size_t) < 65504
   \<and> block_get_flag_last (heap demo_full) 0x100000
   \<and> mem_realloc demo_config (demo_kernel 0x200000) demo_full 0x100020 64 =
       (case mem_alloc demo_config (demo_kernel 0x200000) demo_full 64 of
          None \<Rightarrow> None
        | Some (ptr2, st1) \<Rightarrow>
            if ptr2 = NULL then Some (NULL, st1)
            else map_option (Pair ptr2)
                   (mem_free demo_config (demo_kernel 0x200000)
                      (st1\<lparr>bytes := memcpy (bytes st1) ptr2 0x100020 64\<rparr>) 0x100020))"
proof -
  have h1: "0x100020 \<noteq> NULL" by (simp add: NULL_def)
  have h2: "0x100000 = payload_to_block demo_config 0x100020"
    by (simp add: payload_to_block_def)
  have h3: "65504 = block_get_size_curr (heap demo_full) 0x100000"
    by (simp add: demo_full_def flag_consts)
  have h4: "\<not> BLOCK_SIZE_MAX demo_config < 65504" by simp
  have h5: "block_get_flag_busy (heap demo_full) 0x100000"
    by (simp add: demo_full_def block_get_flag_busy_def flag_consts)
  have h6: "64 = ROUND_BYTES demo_config
              (if 64 < BLOCK_SIZE_MIN demo_config then BLOCK_SIZE_MIN demo_config else 64)"
    by (simp add: ROUND_BYTES_def)
  have h7: "(64::size_t) < 65504" by simp
  have h8: "block_get_flag_last (heap demo_full) 0x100000"
    by (simp add: demo_full_def block_get_flag_last_def flag_consts)
  have h8': "block_get_flag_last (heap demo_full) 0x100000
             \<or> \<not> BLOCK_STRUCT_SIZE demo_config + BLOCK_SIZE_MIN demo_config \<le> 65504 - 64"
    using h8 by simp
  show ?thesis
    using realloc_shrink_moves[OF h1 h2 h3 h4 h5 h6 h7 h8', of "demo_kernel 0x200000"]
      h1 h2 h3 h4 h5 h6 h7 h8
    by blast
qed

text \<open>
  C8, the code at a failing input: in the state reached by \<open>mem_alloc 5\<close>, with a page
  provider that is out of memory, \<open>mem_realloc\<close> of the block to 100000 bytes returns the
  address 32 and not \<open>NULL\<close>, and the original block is gone: it was freed and its arena
  was unmapped.
\<close>

theorem realloc_oversized_enomem:
  "result_ptr (mem_realloc demo_config oom_kernel demo_small 0x100020 100000) = Some 32
   \<and> map_option mappings
        (result_state (mem_realloc demo_config oom_kernel demo_small 0x100020 100000))
        = Some []"
  by (simp add: run_defs demo_small_def)

section \<open>The effect of the block operations on the headers\<close>






section \<open>Layouts\<close>

lemma total_append [simp]: "extent cfg (xs @ ys) = extent cfg xs + extent cfg ys"
  by (induction xs) auto

lemma lastsz_simps [simp]:
  "lastsz p [] = p" "lastsz p (xs @ [(sz, b)]) = sz" "lastsz p [(sz, b)] = sz"
  "lastsz p ((sz, b) # xs) = lastsz sz xs"
  by (simp_all add: lastsz_def)








lemma blocks_from_decomp:
  "(off, prev, sz, b) \<in> set (blocks_from cfg o' p ls) \<Longrightarrow>
     \<exists>pre post. ls = pre @ (sz, b) # post \<and> off = o' + extent cfg pre \<and> prev = lastsz p pre"
proof (induction ls arbitrary: o' p)
  case Nil then show ?case by simp
next
  case (Cons x xs)
  obtain s c where x: "x = (s, c)" by (cases x)
  show ?case
  proof (cases "(off, prev, sz, b) = (o', p, s, c)")
    case True
    then have "x # xs = [] @ (sz, b) # xs \<and> off = o' + extent cfg [] \<and> prev = lastsz p []"
      using x by simp
    then show ?thesis by blast
  next
    case False
    with Cons.prems x
    have "(off, prev, sz, b) \<in> set (blocks_from cfg (o' + unat (BLOCK_STRUCT_SIZE cfg) + s) s xs)"
      by auto
    from Cons.IH[OF this] obtain pre post where
      "xs = pre @ (sz, b) # post" "off = o' + unat (BLOCK_STRUCT_SIZE cfg) + s + extent cfg pre"
      "prev = lastsz s pre"
      by blast
    then have "x # xs = (x # pre) @ (sz, b) # post \<and> off = o' + extent cfg (x # pre)
                 \<and> prev = lastsz p (x # pre)"
      using x by simp
    then show ?thesis by blast
  qed
qed




section \<open>Well-formed arenas\<close>












lemma word_of_nat_BSS: "of_nat (unat (BLOCK_STRUCT_SIZE cfg)) = BLOCK_STRUCT_SIZE cfg"
  by simp

lemma addr_step:
  "base + of_nat a + BLOCK_STRUCT_SIZE cfg + of_nat s
     = (base::addr) + of_nat (a + unat (BLOCK_STRUCT_SIZE cfg) + s)"
  by simp












section \<open>The invariant under a change of one arena\<close>





















section \<open>The invariant under \<open>mem_alloc\<close>\<close>




























section \<open>The invariant under \<open>mem_free\<close>\<close>








lemma offs_mid_single:
  "(off, sz', b') \<in> set (offs cfg (extent cfg pre) [(sz, bz)]) \<longleftrightarrow>
     off = extent cfg pre \<and> sz' = sz \<and> b' = bz"
  by auto






















section \<open>The invariant under \<open>mem_realloc\<close>\<close>














section \<open>No two adjacent free blocks\<close>
















end
